theory Spec2Isabelle
  imports Complex_Main "HOL-Library.Char_ord" "HOL-Library.List_Lexorder"
begin

section \<open>Python values\<close>

text \<open>
  The program is Python. An exception is a value of \<open>exn\<close>; a computation that may
  raise returns \<open>exn + 'a\<close>, with \<open>Inl\<close> for the exception. \<open>NotFittedError\<close> is
  scikit-learn's, a subclass of \<open>ValueError\<close>; \<open>OtherException\<close> stands for every
  other subclass of \<open>Exception\<close>. Output written by \<open>print\<close> is not modelled.
\<close>

datatype exn =
  FileNotFoundError | KeyError | ValueError | TypeError | AttributeError
  | NotFittedError | OverflowError | ZeroDivisionError | OtherException

text \<open>\<open>except ValueError\<close> catches the class and its subclasses.\<close>

definition is_ValueError :: "exn \<Rightarrow> bool" where
  "is_ValueError e = (e = ValueError \<or> e = NotFittedError)"

text \<open>\<open>d.get(k, default)\<close> and \<open>d[k]\<close> on a dictionary.\<close>

definition dict_get :: "('k \<rightharpoonup> 'v) \<Rightarrow> 'k \<Rightarrow> 'v \<Rightarrow> 'v" where
  "dict_get d k dflt = (case d k of None \<Rightarrow> dflt | Some v \<Rightarrow> v)"

definition dict_getitem :: "('k \<rightharpoonup> 'v) \<Rightarrow> 'k \<Rightarrow> exn + 'v" where
  "dict_getitem d k = (case d k of None \<Rightarrow> Inl KeyError | Some v \<Rightarrow> Inr v)"

subsection \<open>The values of the numeric parameters\<close>

text \<open>
  The parameters \<open>total_amount\<close>, \<open>total_hours\<close> and \<open>num_services\<close> of the
  predictors are not typed: the value passed is \<open>None\<close>, a string, an \<open>int\<close> (a
  \<open>bool\<close> is an \<open>int\<close>) or a \<open>float\<close>. An \<open>int\<close> is unbounded. A \<open>float\<close>
  is a real number here: the rounding of binary floating point, \<open>nan\<close> and \<open>inf\<close>
  are outside the model. The four categorical parameters are strings, \<^typ>\<open>string\<close>;
  other objects in their place are outside the model.
\<close>

datatype pyval = PyNone | PyStr string | PyInt int | PyFloat real

text \<open>
  Converting an \<open>int\<close> to \<open>float\<close> raises \<open>OverflowError\<close> when the nearest
  float would be beyond the largest one, \<open>2^1024 - 2^971\<close>: from \<open>2^1024 - 2^970\<close>
  on. \<open>py_float\<close> is the conversion that the format specification \<open>,.2f\<close> applies to
  its argument.
\<close>

definition float_overflow_bound :: int where
  "float_overflow_bound = 2 ^ 1024 - 2 ^ 970"

definition py_float :: "pyval \<Rightarrow> exn + real" where
  "py_float x =
     (case x of
        PyFloat r \<Rightarrow> Inr r
      | PyInt i \<Rightarrow>
          if \<bar>i\<bar> < float_overflow_bound then Inr (of_int i) else Inl OverflowError
      | PyNone \<Rightarrow> Inl TypeError
      | PyStr s \<Rightarrow> Inl ValueError)"

text \<open>\<open>x > c\<close> for an \<open>int\<close> literal \<open>c\<close>: numbers compare exactly.\<close>

definition py_gt :: "pyval \<Rightarrow> int \<Rightarrow> exn + bool" where
  "py_gt x c =
     (case x of
        PyInt i \<Rightarrow> Inr (i > c)
      | PyFloat r \<Rightarrow> Inr (r > of_int c)
      | _ \<Rightarrow> Inl TypeError)"

text \<open>\<open>max(x, 1)\<close>: the first argument unless \<open>1 > x\<close>.\<close>

definition py_max_1 :: "pyval \<Rightarrow> exn + pyval" where
  "py_max_1 x =
     (case x of
        PyInt i \<Rightarrow> Inr (if 1 > i then PyInt 1 else PyInt i)
      | PyFloat r \<Rightarrow> Inr (if 1 > r then PyInt 1 else PyFloat r)
      | _ \<Rightarrow> Inl TypeError)"

text \<open>
  \<open>x / y\<close>: the quotient of two \<open>int\<close>s is a float, \<open>OverflowError\<close> when it is
  beyond the float range; with a float on one side the \<open>int\<close> on the other is converted
  first.
\<close>

definition py_truediv :: "pyval \<Rightarrow> pyval \<Rightarrow> exn + pyval" where
  "py_truediv x y =
     (case (x, y) of
        (PyInt a, PyInt b) \<Rightarrow>
          if b = 0 then Inl ZeroDivisionError
          else if \<bar>(of_int a :: real) / of_int b\<bar> < of_int float_overflow_bound
          then Inr (PyFloat (of_int a / of_int b))
          else Inl OverflowError
      | (PyNone, _) \<Rightarrow> Inl TypeError
      | (PyStr s, _) \<Rightarrow> Inl TypeError
      | (_, PyNone) \<Rightarrow> Inl TypeError
      | (_, PyStr s) \<Rightarrow> Inl TypeError
      | _ \<Rightarrow>
          (case py_float x of
             Inl e \<Rightarrow> Inl e
           | Inr a \<Rightarrow>
               (case py_float y of
                  Inl e \<Rightarrow> Inl e
                | Inr b \<Rightarrow>
                    if b = 0 then Inl ZeroDivisionError else Inr (PyFloat (a / b)))))"

subsection \<open>Rounding and formatting of numbers\<close>

text \<open>
  Python rounds a number to a given count of decimals to the nearest value, a tie going to
  the even neighbour. \<open>round(x, 2)\<close> is \<open>py_round2\<close>; the format specification
  \<open>,.2f\<close> of an f-string is \<open>format_amount\<close>: a minus sign for a negative number, the
  integer part in groups of three digits separated by commas, a point and two decimals.
\<close>

definition round_half_even :: "real \<Rightarrow> int" where
  "round_half_even y =
     (let f = \<lfloor>y\<rfloor>; d = y - of_int f
      in if d < 1 / 2 then f
         else if 1 / 2 < d then f + 1
         else if even f then f else f + 1)"

definition py_round2 :: "real \<Rightarrow> real" where
  "py_round2 x = of_int (round_half_even (x * 100)) / 100"

definition digit_char :: "nat \<Rightarrow> char" where
  "digit_char n = ''0123456789'' ! (n mod 10)"

function decimal_digits :: "nat \<Rightarrow> string" where
  "decimal_digits n =
     (if n < 10 then [digit_char n]
      else decimal_digits (n div 10) @ [digit_char (n mod 10)])"
  by pat_completeness auto
termination
  by (relation "measure (\<lambda>n. n)") auto

fun group_rev :: "string \<Rightarrow> string" where
  "group_rev (a # b # c # d # rest) = a # b # c # CHR '','' # group_rev (d # rest)"
| "group_rev ds = ds"

definition group_thousands :: "string \<Rightarrow> string" where
  "group_thousands ds = rev (group_rev (rev ds))"

definition format_amount :: "real \<Rightarrow> string" where
  "format_amount x =
     (let c = nat (round_half_even (\<bar>x\<bar> * 100))
      in (if x < 0 then ''-'' else '''')
         @ group_thousands (decimal_digits (c div 100))
         @ ''.''
         @ [digit_char (c mod 100 div 10), digit_char (c mod 10)])"

text \<open>\<open>f"{x:,.2f}"\<close> for a value \<open>x\<close>: the conversion may raise.\<close>

definition format_2f :: "pyval \<Rightarrow> exn + string" where
  "format_2f x =
     (case py_float x of
        Inl e \<Rightarrow> Inl e
      | Inr r \<Rightarrow> Inr (format_amount r))"

section \<open>The suggestion bundle and the rule-based defaults\<close>

text \<open>The dictionary every \<open>predict\<close> returns, with its five keys.\<close>

record suggestion =
  discount :: real
  tax_rate :: real
  documentation_complexity :: string
  payment_terms :: string
  service_notes :: string

text \<open>
  \<open>ITInvoicePredictor._get_smart_defaults\<close> (train_it_model.py). It does not read
  \<open>self\<close>. The dictionary literal \<open>payment_terms_map\<close> is local to the method.
  The comparisons of \<open>total_amount\<close> and the f-string raise for a value that is no
  number, or too large an \<open>int\<close>; nothing in the method catches that.
\<close>

definition defaults_payment_terms_map :: "string \<rightharpoonup> string" where
  "defaults_payment_terms_map = map_of
     [(''Fixed Price'', ''50% Advance, 50% on Completion''),
      (''Time & Materials'', ''Net 30''),
      (''Retainer'', ''Monthly in Advance''),
      (''Support Contract'', ''Quarterly in Advance'')]"

text \<open>The \<open>if\<close>/\<open>elif\<close> chain of the discount, and the one of the documentation.\<close>

definition defaults_discount :: "pyval \<Rightarrow> exn + real" where
  "defaults_discount total_amount =
     (case py_gt total_amount 20000 of
        Inl e \<Rightarrow> Inl e
      | Inr True \<Rightarrow> Inr 10.0
      | Inr False \<Rightarrow>
     (case py_gt total_amount 10000 of
        Inl e \<Rightarrow> Inl e
      | Inr True \<Rightarrow> Inr 5.0
      | Inr False \<Rightarrow>
     (case py_gt total_amount 5000 of
        Inl e \<Rightarrow> Inl e
      | Inr True \<Rightarrow> Inr 2.0
      | Inr False \<Rightarrow> Inr 0.0)))"

definition defaults_doc_complexity :: "pyval \<Rightarrow> exn + string" where
  "defaults_doc_complexity total_amount =
     (case py_gt total_amount 15000 of
        Inl e \<Rightarrow> Inl e
      | Inr True \<Rightarrow> Inr ''High''
      | Inr False \<Rightarrow>
     (case py_gt total_amount 5000 of
        Inl e \<Rightarrow> Inl e
      | Inr True \<Rightarrow> Inr ''Medium''
      | Inr False \<Rightarrow> Inr ''Low''))"

definition get_smart_defaults ::
  "string \<Rightarrow> string \<Rightarrow> string \<Rightarrow> pyval \<Rightarrow> exn + suggestion" where
  "get_smart_defaults service_category client_industry project_type total_amount =
     (case defaults_discount total_amount of
        Inl e \<Rightarrow> Inl e
      | Inr d \<Rightarrow>
     (case defaults_doc_complexity total_amount of
        Inl e \<Rightarrow> Inl e
      | Inr doc_complexity \<Rightarrow>
     (case format_2f total_amount of
        Inl e \<Rightarrow> Inl e
      | Inr formatted \<Rightarrow>
          Inr \<lparr> discount = d,
                tax_rate = 8.5,
                documentation_complexity = doc_complexity,
                payment_terms = dict_get defaults_payment_terms_map project_type ''Net 30'',
                service_notes =
                  ''Professional '' @ service_category @ '' services for ''
                  @ client_industry @ '' sector. Total project value: $''
                  @ formatted \<rparr>)))"

section \<open>The collaborators: scikit-learn, pandas, joblib and the files\<close>

text \<open>
  A feature vector is the row \<open>input_df[required_cols]\<close>: ten cells in the order of
  \<open>required_cols\<close>, each holding the value that was stored in it. A fitted random
  forest is known by what \<open>float(m.predict(X_pred)[0])\<close> (a regressor) or
  \<open>int(m.predict(X_pred)[0])\<close> (a classifier) gives on a feature vector: an exception
  (also for cells it cannot take as numbers) or a number.
\<close>

type_synonym feature_vector = "pyval list"
type_synonym regressor = "feature_vector \<Rightarrow> exn + real"
type_synonym classifier = "feature_vector \<Rightarrow> exn + int"

text \<open>
  A column of a data frame holds text or numbers. A \<open>LabelEncoder\<close> is unfitted, or
  fitted with its \<open>classes_\<close> (the sorted distinct values of the column it was fitted on).
  An encoder fitted on numbers converts what it is to transform to the type of its
  classes; \<open>FittedNum\<close> holds, beside the classes, that conversion of a string (numpy's:
  \<open>None\<close> when it raises \<open>ValueError\<close>). \<open>NotAnEncoder\<close> is an object without
  \<open>transform\<close> that a model file may hold in the place of an encoder.
\<close>

datatype column = StrCol "string list" | NumCol "real list"

type_synonym data_frame = "string \<rightharpoonup> column"

datatype label_encoder =
  Unfitted | Fitted "string list" | FittedNum "real list" "string \<Rightarrow> real option"
  | NotAnEncoder

text \<open>
  The objects that the attributes of a predictor and the entries of a model file hold here:
  a fitted \<open>RandomForestRegressor\<close> or \<open>RandomForestClassifier\<close>, a forest before
  \<open>fit\<close>, a dictionary of encoders, a list of strings, and \<open>None\<close>. Other objects
  are outside the model.
\<close>

datatype pyobj =
  Regressor regressor | Classifier classifier | UnfittedForest
  | Encoders "string \<rightharpoonup> label_encoder" | ListObject "string list" | NoneObject

datatype pickle = PickledDict "string \<rightharpoonup> pyobj" | PickledOther

datatype joblib_file = CorruptFile | Pickle pickle

datatype csv_file = MalformedCsv | Table data_frame

text \<open>
  The world outside the program: the files \<open>joblib.load\<close> and \<open>pd.read_csv\<close> read,
  whether \<open>joblib.dump\<close> can write a file, numpy's conversion of a string to a number
  (\<open>None\<close> when it raises), and what fitting a random forest
  (\<open>RandomForestRegressor(n_estimators=50, random_state=42, max_depth=10).fit(X, y)\<close>, and
  the classifier alike) returns for a feature matrix (its columns in order) and a label
  column. With a fixed \<open>random_state\<close> fitting is a function of its data.
\<close>

record world =
  joblib_files :: "string \<rightharpoonup> joblib_file"
  csv_files :: "string \<rightharpoonup> csv_file"
  writable :: "string \<Rightarrow> bool"
  numpy_float :: "string \<Rightarrow> real option"
  rf_regressor_fit :: "column list \<Rightarrow> column \<Rightarrow> exn + regressor"
  rf_classifier_fit :: "column list \<Rightarrow> column \<Rightarrow> exn + classifier"

definition joblib_load :: "world \<Rightarrow> string \<Rightarrow> exn + pickle" where
  "joblib_load w filename =
     (case joblib_files w filename of
        None \<Rightarrow> Inl FileNotFoundError
      | Some CorruptFile \<Rightarrow> Inl OtherException
      | Some (Pickle obj) \<Rightarrow> Inr obj)"

definition joblib_dump :: "world \<Rightarrow> pickle \<Rightarrow> string \<Rightarrow> exn + world" where
  "joblib_dump w obj filename =
     (if writable w filename
      then Inr (w\<lparr>joblib_files := (joblib_files w)(filename \<mapsto> Pickle obj)\<rparr>)
      else Inl OtherException)"

definition read_csv :: "world \<Rightarrow> string \<Rightarrow> exn + data_frame" where
  "read_csv w filename =
     (case csv_files w filename of
        None \<Rightarrow> Inl FileNotFoundError
      | Some MalformedCsv \<Rightarrow> Inl OtherException
      | Some (Table df) \<Rightarrow> Inr df)"

text \<open>\<open>model_data[k]\<close> and \<open>model_data.get(k, default)\<close> on a loaded object.\<close>

definition pickle_getitem :: "pickle \<Rightarrow> string \<Rightarrow> exn + pyobj" where
  "pickle_getitem model_data k =
     (case model_data of
        PickledDict d \<Rightarrow> dict_getitem d k
      | PickledOther \<Rightarrow> Inl TypeError)"

definition pickle_get :: "pickle \<Rightarrow> string \<Rightarrow> pyobj \<Rightarrow> exn + pyobj" where
  "pickle_get model_data k dflt =
     (case model_data of
        PickledDict d \<Rightarrow> Inr (dict_get d k dflt)
      | PickledOther \<Rightarrow> Inl AttributeError)"

subsection \<open>LabelEncoder\<close>

fun index_of :: "'a list \<Rightarrow> 'a \<Rightarrow> nat" where
  "index_of [] v = 0"
| "index_of (x # xs) v = (if x = v then 0 else Suc (index_of xs v))"

text \<open>
  \<open>enc.transform([v])[0]\<close> for a string \<open>v\<close>: the position of \<open>v\<close> in
  \<open>classes_\<close>, and \<open>ValueError\<close> for a value that is not among them. With numeric
  classes the string is converted first; a string that is no numeral raises
  \<open>ValueError\<close>.
\<close>

definition transform :: "label_encoder \<Rightarrow> string \<Rightarrow> exn + nat" where
  "transform enc v =
     (case enc of
        Unfitted \<Rightarrow> Inl NotFittedError
      | Fitted classes \<Rightarrow>
          if v \<in> set classes then Inr (index_of classes v) else Inl ValueError
      | FittedNum classes conv \<Rightarrow>
          (case conv v of
             None \<Rightarrow> Inl ValueError
           | Some x \<Rightarrow>
               if x \<in> set classes then Inr (index_of classes x) else Inl ValueError)
      | NotAnEncoder \<Rightarrow> Inl AttributeError)"

text \<open>
  \<open>enc.fit_transform(column)\<close>: the fitted encoder and the column of codes. The first
  argument is numpy's conversion of a string to a number.
\<close>

definition fit_transform :: "(string \<Rightarrow> real option) \<Rightarrow> column \<Rightarrow> label_encoder \<times> column" where
  "fit_transform conv c =
     (case c of
        StrCol xs \<Rightarrow>
          (let classes = sort (remdups xs)
           in (Fitted classes, NumCol (map (\<lambda>v. real (index_of classes v)) xs)))
      | NumCol ys \<Rightarrow>
          (let classes = sort (remdups ys)
           in (FittedNum classes conv,
               NumCol (map (\<lambda>v. real (index_of classes v)) ys))))"

text \<open>
  \<open>col in self.encoders\<close>: the keys of a dictionary; the elements of a list; a fitted
  forest is searched among its trees, none of which equals a string; a forest before
  \<open>fit\<close> has no trees to iterate (\<open>AttributeError\<close>); \<open>None\<close> is not iterable
  (\<open>TypeError\<close>).
\<close>

definition encoders_contains :: "pyobj \<Rightarrow> string \<Rightarrow> exn + bool" where
  "encoders_contains encs col =
     (case encs of
        Encoders m \<Rightarrow> Inr (col \<in> dom m)
      | ListObject xs \<Rightarrow> Inr (col \<in> set xs)
      | Regressor r \<Rightarrow> Inr False
      | Classifier c \<Rightarrow> Inr False
      | UnfittedForest \<Rightarrow> Inl AttributeError
      | NoneObject \<Rightarrow> Inl TypeError)"

section \<open>ITInvoicePredictor (train_it_model.py)\<close>

text \<open>
  The attributes of an instance. The three model attributes do not exist until they are
  assigned: \<open>None\<close> is the missing attribute, reading it raises \<open>AttributeError\<close>.
\<close>

record predictor =
  models_loaded :: bool
  dataset_loaded :: bool
  dataset :: "data_frame option"
  encoders :: pyobj
  discount_model :: "pyobj option"
  tax_model :: "pyobj option"
  docs_model :: "pyobj option"

text \<open>\<open>__init__\<close>\<close>

definition init :: predictor where
  "init = \<lparr> models_loaded = False, dataset_loaded = False, dataset = None,
            encoders = Encoders Map.empty,
            discount_model = None, tax_model = None, docs_model = None \<rparr>"

text \<open>\<open>load_dataset\<close>: both handlers return \<open>False\<close>.\<close>

definition load_dataset :: "predictor \<Rightarrow> world \<Rightarrow> string \<Rightarrow> bool \<times> predictor" where
  "load_dataset p w filename =
     (case read_csv w filename of
        Inl e \<Rightarrow> (False, p)
      | Inr df \<Rightarrow> (True, p\<lparr>dataset := Some df, dataset_loaded := True\<rparr>))"

subsection \<open>prepare_features_for_prediction\<close>

text \<open>
  The body of the loop over \<open>categorical_cols\<close>: the code of one categorical value.
  \<open>col in input_df.columns\<close> holds for each of the four columns, since \<open>input_dict\<close>
  has them all.
\<close>

definition encode_category :: "pyobj \<Rightarrow> string \<Rightarrow> string \<Rightarrow> exn + pyval" where
  "encode_category encs col v =
     (case encoders_contains encs col of
        Inl e \<Rightarrow> Inl e
      | Inr False \<Rightarrow> Inr (PyInt 0)
      | Inr True \<Rightarrow>
          (case encs of
             Encoders m \<Rightarrow>
               (case dict_getitem m col of
                  Inl e \<Rightarrow> Inl e
                | Inr enc \<Rightarrow>
                    (case transform enc v of
                       Inl e \<Rightarrow> if is_ValueError e then Inr (PyInt 0) else Inl e
                     | Inr code \<Rightarrow> Inr (PyInt (int code))))
           | _ \<Rightarrow> Inl TypeError))"

text \<open>
  The body of the outer \<open>try\<close>: the feature vector, or the exception raised. The
  derived features are computed after the loop: the quotient (its divisor
  \<open>max(total_hours, 1)\<close> first), then the two flags.
\<close>

definition prepare_features_try ::
  "predictor \<Rightarrow> string \<Rightarrow> string \<Rightarrow> string \<Rightarrow> string \<Rightarrow> pyval \<Rightarrow> pyval \<Rightarrow> pyval
     \<Rightarrow> exn + feature_vector" where
  "prepare_features_try p service_category client_industry country project_type
       total_amount total_hours num_services =
     (case encode_category (encoders p) ''service_category'' service_category of
        Inl e \<Rightarrow> Inl e
      | Inr c1 \<Rightarrow>
     (case encode_category (encoders p) ''client_industry'' client_industry of
        Inl e \<Rightarrow> Inl e
      | Inr c2 \<Rightarrow>
     (case encode_category (encoders p) ''country'' country of
        Inl e \<Rightarrow> Inl e
      | Inr c3 \<Rightarrow>
     (case encode_category (encoders p) ''project_type'' project_type of
        Inl e \<Rightarrow> Inl e
      | Inr c4 \<Rightarrow>
     (case py_max_1 total_hours of
        Inl e \<Rightarrow> Inl e
      | Inr divisor \<Rightarrow>
     (case py_truediv total_amount divisor of
        Inl e \<Rightarrow> Inl e
      | Inr amount_per_hour \<Rightarrow>
     (case py_gt total_amount 20000 of
        Inl e \<Rightarrow> Inl e
      | Inr is_large \<Rightarrow>
          Inr [c1, c2, c3, c4, total_amount, total_hours, num_services,
               amount_per_hour,
               PyInt (if is_large then 1 else 0),
               PyInt (if client_industry \<in> set [''Finance'', ''Healthcare'']
                      then 1 else 0)])))))))"

text \<open>\<open>except Exception\<close> returns \<open>None\<close>.\<close>

definition prepare_features_for_prediction ::
  "predictor \<Rightarrow> string \<Rightarrow> string \<Rightarrow> string \<Rightarrow> string \<Rightarrow> pyval \<Rightarrow> pyval \<Rightarrow> pyval
     \<Rightarrow> feature_vector option" where
  "prepare_features_for_prediction p service_category client_industry country project_type
       total_amount total_hours num_services =
     (case prepare_features_try p service_category client_industry country project_type
             total_amount total_hours num_services of
        Inl e \<Rightarrow> None
      | Inr X \<Rightarrow> Some X)"

subsection \<open>train_models\<close>

definition categorical_cols :: "string list" where
  "categorical_cols = [''service_category'', ''client_industry'', ''country'', ''project_type'']"

definition feature_cols :: "string list" where
  "feature_cols = categorical_cols @
     [''total_amount'', ''total_hours'', ''num_services'',
      ''amount_per_hour'', ''is_large_project'', ''is_enterprise_client'']"

text \<open>
  The loop that fits one encoder per categorical column. \<open>self.encoders[col] =
  LabelEncoder()\<close> stores the unfitted encoder before \<open>X[col]\<close> is read, so the
  dictionary keeps it when the column is missing. The second component is
  \<open>self.encoders\<close> as the loop leaves it.
\<close>

fun encode_training_columns ::
  "(string \<Rightarrow> real option) \<Rightarrow> string list \<Rightarrow> data_frame \<Rightarrow> pyobj
     \<Rightarrow> (exn + data_frame) \<times> pyobj" where
  "encode_training_columns conv [] X encs = (Inr X, encs)"
| "encode_training_columns conv (col # cols) X encs =
     (case encs of
        Encoders m \<Rightarrow>
          (case dict_getitem X col of
             Inl e \<Rightarrow> (Inl e, Encoders (m(col \<mapsto> Unfitted)))
           | Inr c \<Rightarrow>
               (case fit_transform conv c of
                  (enc, codes) \<Rightarrow>
                    encode_training_columns conv cols (X(col \<mapsto> codes))
                      (Encoders (m(col \<mapsto> enc)))))
      | _ \<Rightarrow> (Inl TypeError, encs))"

text \<open>\<open>X[feature_cols]\<close>: the columns in this order, \<open>KeyError\<close> when one is missing.\<close>

fun select_columns :: "data_frame \<Rightarrow> string list \<Rightarrow> exn + column list" where
  "select_columns X [] = Inr []"
| "select_columns X (col # cols) =
     (case dict_getitem X col of
        Inl e \<Rightarrow> Inl e
      | Inr c \<Rightarrow>
          (case select_columns X cols of
             Inl e \<Rightarrow> Inl e
           | Inr cs \<Rightarrow> Inr (c # cs)))"

text \<open>\<open>model.fit(X, self.dataset[label])\<close>: the label column is read first.\<close>

definition fit_on :: "(column list \<Rightarrow> column \<Rightarrow> exn + 'm) \<Rightarrow> column list \<Rightarrow> data_frame \<Rightarrow> string
     \<Rightarrow> exn + 'm" where
  "fit_on fit X df label =
     (case dict_getitem df label of
        Inl e \<Rightarrow> Inl e
      | Inr y \<Rightarrow> fit X y)"

text \<open>
  The body of the \<open>try\<close> of \<open>train_models\<close>, after the dataset is loaded. The state
  returned with an exception holds the assignments made before it was raised.
\<close>

definition train_models_try :: "predictor \<Rightarrow> world \<Rightarrow> (exn + unit) \<times> predictor" where
  "train_models_try p w =
     (case dataset p of
        None \<Rightarrow> (Inl AttributeError, p)
      | Some df \<Rightarrow>
     (case encode_training_columns (numpy_float w) categorical_cols df (encoders p) of
        (Inl e, encs) \<Rightarrow> (Inl e, p\<lparr>encoders := encs\<rparr>)
      | (Inr X, encs) \<Rightarrow>
     (let p1 = p\<lparr>encoders := encs\<rparr> in
      case select_columns X feature_cols of
        Inl e \<Rightarrow> (Inl e, p1)
      | Inr Xf \<Rightarrow>
     (let p2 = p1\<lparr>discount_model := Some UnfittedForest,
                   tax_model := Some UnfittedForest,
                   docs_model := Some UnfittedForest\<rparr> in
      case fit_on (rf_regressor_fit w) Xf df ''discount'' of
        Inl e \<Rightarrow> (Inl e, p2)
      | Inr dm \<Rightarrow>
     (let p3 = p2\<lparr>discount_model := Some (Regressor dm)\<rparr> in
      case fit_on (rf_regressor_fit w) Xf df ''tax_rate'' of
        Inl e \<Rightarrow> (Inl e, p3)
      | Inr tm \<Rightarrow>
     (let p4 = p3\<lparr>tax_model := Some (Regressor tm)\<rparr> in
      case fit_on (rf_classifier_fit w) Xf df ''needs_detailed_docs'' of
        Inl e \<Rightarrow> (Inl e, p4)
      | Inr cm \<Rightarrow>
          (Inr (), p4\<lparr>docs_model := Some (Classifier cm), models_loaded := True\<rparr>)))))))"

definition train_models :: "predictor \<Rightarrow> world \<Rightarrow> bool \<times> predictor" where
  "train_models p w =
     (case load_dataset p w ''it_invoice_dataset.csv'' of
        (False, p1) \<Rightarrow> (False, p1)
      | (True, p1) \<Rightarrow>
          (case train_models_try p1 w of
             (Inl e, p2) \<Rightarrow> (False, p2)
           | (Inr u, p2) \<Rightarrow> (True, p2)))"

subsection \<open>load_models and save_models\<close>

text \<open>
  The body of the \<open>try\<close> of \<open>load_models\<close>; both handlers call \<open>train_models\<close> on
  the state the exception left.
\<close>

definition load_models_try :: "predictor \<Rightarrow> world \<Rightarrow> string \<Rightarrow> (exn + unit) \<times> predictor" where
  "load_models_try p w filename =
     (case joblib_load w filename of
        Inl e \<Rightarrow> (Inl e, p)
      | Inr model_data \<Rightarrow>
     (case pickle_getitem model_data ''discount_model'' of
        Inl e \<Rightarrow> (Inl e, p)
      | Inr dm \<Rightarrow>
     (let p1 = p\<lparr>discount_model := Some dm\<rparr> in
      case pickle_getitem model_data ''tax_model'' of
        Inl e \<Rightarrow> (Inl e, p1)
      | Inr tm \<Rightarrow>
     (let p2 = p1\<lparr>tax_model := Some tm\<rparr> in
      case pickle_getitem model_data ''docs_model'' of
        Inl e \<Rightarrow> (Inl e, p2)
      | Inr cm \<Rightarrow>
     (let p3 = p2\<lparr>docs_model := Some cm\<rparr> in
      case pickle_get model_data ''encoders'' (Encoders Map.empty) of
        Inl e \<Rightarrow> (Inl e, p3)
      | Inr encs \<Rightarrow> (Inr (), p3\<lparr>encoders := encs, models_loaded := True\<rparr>))))))"

definition load_models :: "predictor \<Rightarrow> world \<Rightarrow> string \<Rightarrow> bool \<times> predictor" where
  "load_models p w filename =
     (case load_models_try p w filename of
        (Inl e, p1) \<Rightarrow> train_models p1 w
      | (Inr u, p1) \<Rightarrow> (True, p1))"

text \<open>The default of the parameter \<open>filename\<close> of both methods.\<close>

definition models_filename :: string where
  "models_filename = ''it_invoice_models.joblib''"

text \<open>
  \<open>save_models\<close>: the result, the predictor (training may have changed it) and the
  world (the file may have been written).
\<close>

definition save_models :: "predictor \<Rightarrow> world \<Rightarrow> string \<Rightarrow> bool \<times> predictor \<times> world" where
  "save_models p w filename =
     (case (if \<not> models_loaded p then train_models p w else (True, p)) of
        (False, p1) \<Rightarrow> (False, p1, w)
      | (True, p1) \<Rightarrow>
          (case (discount_model p1, tax_model p1, docs_model p1) of
             (Some dm, Some tm, Some cm) \<Rightarrow>
               (case joblib_dump w
                       (PickledDict
                          (map_of [(''discount_model'', dm), (''tax_model'', tm),
                                   (''docs_model'', cm), (''encoders'', encoders p1)]))
                       filename of
                  Inl e \<Rightarrow> (False, p1, w)
                | Inr w1 \<Rightarrow> (True, p1, w1))
           | _ \<Rightarrow> (False, p1, w)))"

subsection \<open>predict\<close>

text \<open>
  \<open>float(m.predict(X_pred)[0])\<close> and \<open>int(m.predict(X_pred)[0])\<close> on the object an
  attribute holds. \<open>int\<close> of a float truncates towards zero. A forest before
  \<open>fit\<close> raises \<open>NotFittedError\<close>; a missing attribute, a dictionary and \<open>None\<close>
  have no \<open>predict\<close>.
\<close>

definition py_int :: "real \<Rightarrow> int" where
  "py_int y = (if 0 \<le> y then \<lfloor>y\<rfloor> else \<lceil>y\<rceil>)"

definition predict_float :: "pyobj option \<Rightarrow> feature_vector \<Rightarrow> exn + real" where
  "predict_float m X =
     (case m of
        Some (Regressor r) \<Rightarrow> r X
      | Some (Classifier c) \<Rightarrow> (case c X of Inl e \<Rightarrow> Inl e | Inr k \<Rightarrow> Inr (of_int k))
      | Some UnfittedForest \<Rightarrow> Inl NotFittedError
      | _ \<Rightarrow> Inl AttributeError)"

definition predict_int :: "pyobj option \<Rightarrow> feature_vector \<Rightarrow> exn + int" where
  "predict_int m X =
     (case m of
        Some (Classifier c) \<Rightarrow> c X
      | Some (Regressor r) \<Rightarrow> (case r X of Inl e \<Rightarrow> Inl e | Inr y \<Rightarrow> Inr (py_int y))
      | Some UnfittedForest \<Rightarrow> Inl NotFittedError
      | _ \<Rightarrow> Inl AttributeError)"

definition predict_payment_terms_map :: "string \<rightharpoonup> string" where
  "predict_payment_terms_map = map_of
     [(''Fixed Price'', ''50% Advance, 50% on Completion''),
      (''Time & Materials'', ''Net 30''),
      (''Retainer'', ''Monthly in Advance''),
      (''Support Contract'', ''Quarterly in Advance'')]"

definition predict_service_notes_map :: "string \<rightharpoonup> string" where
  "predict_service_notes_map = map_of
     [(''Software Development'',
         ''Includes code documentation, testing, and deployment support.''),
      (''Cloud Services'',
         ''Includes architecture design, security configuration, and monitoring.''),
      (''Cybersecurity'',
         ''Includes security assessment, vulnerability scanning, and compliance reports.''),
      (''IT Consulting'',
         ''Comprehensive analysis, strategy recommendations, and implementation guidance.'')]"

text \<open>
  How the \<open>try\<close> of \<open>predict\<close> ends without an exception: at one of its \<open>return\<close>
  statements, or past its end with the local variables \<open>discount\<close>, \<open>tax_rate\<close> and
  \<open>doc_complexity\<close> set.
\<close>

datatype try_result = Return suggestion | Inferred real real string

text \<open>
  \<open>return self._get_smart_defaults(...)\<close> inside the \<open>try\<close>: an exception of the
  call is raised there.
\<close>

definition return_defaults ::
  "string \<Rightarrow> string \<Rightarrow> string \<Rightarrow> pyval \<Rightarrow> predictor \<Rightarrow> (exn + try_result) \<times> predictor" where
  "return_defaults service_category client_industry project_type total_amount p =
     (case get_smart_defaults service_category client_industry project_type total_amount of
        Inl e \<Rightarrow> (Inl e, p)
      | Inr b \<Rightarrow> (Inr (Return b), p))"

definition predict_try ::
  "predictor \<Rightarrow> world \<Rightarrow> string \<Rightarrow> string \<Rightarrow> string \<Rightarrow> string \<Rightarrow> pyval \<Rightarrow> pyval \<Rightarrow> pyval
     \<Rightarrow> (exn + try_result) \<times> predictor" where
  "predict_try p w service_category client_industry country project_type
       total_amount total_hours num_services =
     (case (if \<not> models_loaded p then load_models p w models_filename else (True, p)) of
        (False, p1) \<Rightarrow>
          return_defaults service_category client_industry project_type total_amount p1
      | (True, p1) \<Rightarrow>
          (case prepare_features_for_prediction p1 service_category client_industry country
                  project_type total_amount total_hours num_services of
             None \<Rightarrow>
               return_defaults service_category client_industry project_type total_amount p1
           | Some X_pred \<Rightarrow>
               if models_loaded p1 then
                 (case predict_float (discount_model p1) X_pred of
                    Inl e \<Rightarrow> (Inl e, p1)
                  | Inr d \<Rightarrow>
                 (case predict_float (tax_model p1) X_pred of
                    Inl e \<Rightarrow> (Inl e, p1)
                  | Inr t \<Rightarrow>
                 (case predict_int (docs_model p1) X_pred of
                    Inl e \<Rightarrow> (Inl e, p1)
                  | Inr needs_detailed_docs \<Rightarrow>
                      (Inr (Inferred (max 0 (min 20 d)) (max 0 (min 25 t))
                              (if needs_detailed_docs \<noteq> 0 then ''High'' else ''Medium'')),
                       p1))))
               else
                 return_defaults service_category client_industry project_type
                   total_amount p1))"

text \<open>
  \<open>predict\<close>: what the call gives its caller (a dictionary, or an exception that
  leaves the method) and the predictor after the call. The handler calls
  \<open>_get_smart_defaults\<close> outside every \<open>try\<close>: what that call raises leaves
  \<open>predict\<close>.
\<close>

definition predict ::
  "predictor \<Rightarrow> world \<Rightarrow> string \<Rightarrow> string \<Rightarrow> string \<Rightarrow> string \<Rightarrow> pyval \<Rightarrow> pyval \<Rightarrow> pyval
     \<Rightarrow> (exn + suggestion) \<times> predictor" where
  "predict p w service_category client_industry country project_type
       total_amount total_hours num_services =
     (case predict_try p w service_category client_industry country project_type
             total_amount total_hours num_services of
        (Inl e, p1) \<Rightarrow>
          (get_smart_defaults service_category client_industry project_type total_amount,
           p1)
      | (Inr (Return b), p1) \<Rightarrow> (Inr b, p1)
      | (Inr (Inferred d t doc_complexity), p1) \<Rightarrow>
          (Inr \<lparr> discount = py_round2 d,
                 tax_rate = py_round2 t,
                 documentation_complexity = doc_complexity,
                 payment_terms = dict_get predict_payment_terms_map project_type ''Net 30'',
                 service_notes = dict_get predict_service_notes_map service_category
                   ''Professional IT services delivered to industry standards.'' \<rparr>,
           p1))"

section \<open>SimpleInvoicePredictor (it_invoice_app.py)\<close>

text \<open>
  The methods \<open>load_models\<close> and \<open>predict\<close> of this class are
  \<open>simple_load_models\<close> and \<open>simple_predict\<close> here, apart from the ones of
  \<open>ITInvoicePredictor\<close>. The one attribute of an instance is \<open>self.models_loaded\<close>.
\<close>

record simple_predictor =
  simple_models_loaded :: bool

text \<open>
  \<open>load_models\<close>: the loaded object is dropped, only the flag is kept. The bare
  \<open>except\<close> catches every exception.
\<close>

definition simple_load_models ::
  "simple_predictor \<Rightarrow> world \<Rightarrow> string \<Rightarrow> bool \<times> simple_predictor" where
  "simple_load_models sp w filename =
     (case joblib_load w filename of
        Inl e \<Rightarrow> (False, sp\<lparr>simple_models_loaded := False\<rparr>)
      | Inr model_data \<Rightarrow> (True, sp\<lparr>simple_models_loaded := True\<rparr>))"

definition simple_payment_terms_map :: "string \<rightharpoonup> string" where
  "simple_payment_terms_map = map_of
     [(''Fixed Price'', ''50% Advance, 50% on Completion''),
      (''Time & Materials'', ''Net 30''),
      (''Retainer'', ''Monthly in Advance''),
      (''Support Contract'', ''Quarterly in Advance'')]"

definition simple_service_notes_map :: "string \<rightharpoonup> string" where
  "simple_service_notes_map = map_of
     [(''Software Development'',
         ''Includes code documentation, testing, and deployment support.''),
      (''Cloud Services'', ''Includes architecture design and security configuration.''),
      (''Cybersecurity'', ''Includes security assessment and compliance documentation.''),
      (''IT Consulting'', ''Professional consulting services with detailed reports.''),
      (''System Integration'', ''Includes system design and integration testing.''),
      (''Data Analytics'', ''Includes data analysis and visualization reports.''),
      (''DevOps Services'', ''Includes CI/CD pipeline setup and automation.''),
      (''AI/ML Solutions'', ''Includes model development and implementation.'')]"

text \<open>
  The body of the \<open>try\<close> of \<open>predict\<close>: the comparisons of \<open>total_amount\<close>
  raise for a value that is no number.
\<close>

definition simple_discount :: "pyval \<Rightarrow> exn + real" where
  "simple_discount total_amount =
     (case py_gt total_amount 10000 of
        Inl e \<Rightarrow> Inl e
      | Inr True \<Rightarrow> Inr 5.0
      | Inr False \<Rightarrow>
     (case py_gt total_amount 5000 of
        Inl e \<Rightarrow> Inl e
      | Inr True \<Rightarrow> Inr 3.0
      | Inr False \<Rightarrow> Inr 0.0))"

definition simple_doc_complexity :: "pyval \<Rightarrow> exn + string" where
  "simple_doc_complexity total_amount =
     (case py_gt total_amount 15000 of
        Inl e \<Rightarrow> Inl e
      | Inr True \<Rightarrow> Inr ''High''
      | Inr False \<Rightarrow>
     (case py_gt total_amount 5000 of
        Inl e \<Rightarrow> Inl e
      | Inr True \<Rightarrow> Inr ''Medium''
      | Inr False \<Rightarrow> Inr ''Low''))"

definition simple_predict_try ::
  "simple_predictor \<Rightarrow> string \<Rightarrow> string \<Rightarrow> string \<Rightarrow> string \<Rightarrow> pyval \<Rightarrow> pyval \<Rightarrow> pyval
     \<Rightarrow> exn + suggestion" where
  "simple_predict_try sp service_category client_industry country project_type
       total_amount total_hours num_services =
     (case simple_discount total_amount of
        Inl e \<Rightarrow> Inl e
      | Inr d \<Rightarrow>
     (case simple_doc_complexity total_amount of
        Inl e \<Rightarrow> Inl e
      | Inr doc_complexity \<Rightarrow>
          Inr \<lparr> discount = d,
                tax_rate = 8.5,
                documentation_complexity = doc_complexity,
                payment_terms = dict_get simple_payment_terms_map project_type ''Net 30'',
                service_notes = dict_get simple_service_notes_map service_category
                  ''Professional IT services delivered to industry standards.'' \<rparr>))"

text \<open>\<open>except Exception\<close> returns the last dictionary.\<close>

definition simple_predict ::
  "simple_predictor \<Rightarrow> string \<Rightarrow> string \<Rightarrow> string \<Rightarrow> string \<Rightarrow> pyval \<Rightarrow> pyval \<Rightarrow> pyval
     \<Rightarrow> suggestion" where
  "simple_predict sp service_category client_industry country project_type
       total_amount total_hours num_services =
     (case simple_predict_try sp service_category client_industry country project_type
             total_amount total_hours num_services of
        Inr b \<Rightarrow> b
      | Inl e \<Rightarrow>
          \<lparr> discount = 5.0,
            tax_rate = 8.5,
            documentation_complexity = ''Medium'',
            payment_terms = ''Net 30'',
            service_notes =
              ''Thank you for your business! Professional services delivered.'' \<rparr>)"

section \<open>The dataset generator (create_it_dataset.py)\<close>

text \<open>
  The payment terms \<open>generate_it_invoice_data\<close> gives a record: the statements under
  the comment \<open>Payment terms based on project type\<close>, a function of the sampled
  \<open>project_type\<close> alone.
\<close>

definition generated_payment_terms :: "string \<Rightarrow> string" where
  "generated_payment_terms project_type =
     (if project_type = ''Fixed Price'' then ''50% Advance, 50% on Completion''
      else if project_type = ''Support Contract'' then ''Monthly in Advance''
      else ''Net 30'')"

section \<open>The totals of an invoice (it_invoice_app.py)\<close>




record totals =
  subtotal :: real
  discount_amount :: real
  tax_amount :: real
  total :: real
  total_hours :: real



section \<open>The ranges of a suggestion bundle\<close>

text \<open>
  The bounds that the properties below state for a bundle: the business bounds of the
  discount and the tax rate, the three documentation levels, the four payment terms, and
  notes that are not empty.
\<close>

definition in_range :: "suggestion \<Rightarrow> bool" where
  "in_range b =
     (0 \<le> discount b \<and> discount b \<le> 20 \<and> 0 \<le> tax_rate b \<and> tax_rate b \<le> 25 \<and>
      documentation_complexity b \<in> set [''Low'', ''Medium'', ''High''] \<and>
      payment_terms b \<in> set [''50% Advance, 50% on Completion'', ''Net 30'',
        ''Monthly in Advance'', ''Quarterly in Advance''] \<and>
      service_notes b \<noteq> [])"

section \<open>Example worlds\<close>

text \<open>
  A world without files, in which no forest can be fitted. In the worlds of this section
  no encoder is fitted on numbers, and the conversion of strings to numbers is never
  called: it takes no string.
\<close>

definition empty_world :: world where
  "empty_world =
     \<lparr> joblib_files = Map.empty, csv_files = Map.empty, writable = (\<lambda>f. False),
       numpy_float = (\<lambda>s. None),
       rf_regressor_fit = (\<lambda>X y. Inl ValueError),
       rf_classifier_fit = (\<lambda>X y. Inl ValueError) \<rparr>"

text \<open>
  A model file: the discount estimator answers a thousandth of the amount (feature 4), the
  tax estimator a negative number, the classifier the large-project flag (feature 8).
\<close>

definition example_encoders :: pyobj where
  "example_encoders = Encoders (map_of
     [(''service_category'', Fitted [''Cloud Services'', ''Cybersecurity'']),
      (''client_industry'', Fitted [''Education'', ''Finance'']),
      (''country'', Fitted [''UK'', ''US'']),
      (''project_type'', Fitted [''Fixed Price'', ''Retainer''])])"

definition example_discount_model :: pyobj where
  "example_discount_model =
     Regressor (\<lambda>X. case py_float (X ! 4) of
                       Inl e \<Rightarrow> Inl ValueError
                     | Inr a \<Rightarrow> Inr (a / 1000))"

definition example_tax_model :: pyobj where
  "example_tax_model = Regressor (\<lambda>X. Inr (- 3))"

definition example_docs_model :: pyobj where
  "example_docs_model = Classifier (\<lambda>X. Inr (if X ! 8 = PyInt 1 then 1 else 0))"

definition example_artifact :: pickle where
  "example_artifact = PickledDict (map_of
     [(''discount_model'', example_discount_model),
      (''tax_model'', example_tax_model),
      (''docs_model'', example_docs_model),
      (''encoders'', example_encoders)])"

definition artifact_world :: world where
  "artifact_world =
     empty_world\<lparr>joblib_files := [models_filename \<mapsto> Pickle example_artifact]\<rparr>"

text \<open>The predictor that \<open>load_models\<close> makes of \<open>init\<close> in that world.\<close>

definition loaded_example :: predictor where
  "loaded_example =
     init\<lparr>discount_model := Some example_discount_model,
          tax_model := Some example_tax_model,
          docs_model := Some example_docs_model,
          encoders := example_encoders,
          models_loaded := True\<rparr>"





text \<open>
  A world in which training succeeds: a dataset of two rows with every column
  \<open>train_models\<close> reads, and stand-ins for the forests (the regressor answers the mean of
  its labels, the classifier the large-project flag).
\<close>

definition training_table :: data_frame where
  "training_table = map_of
     [(''service_category'', StrCol [''Cybersecurity'', ''Cloud Services'']),
      (''client_industry'', StrCol [''Finance'', ''Education'']),
      (''country'', StrCol [''US'', ''UK'']),
      (''project_type'', StrCol [''Fixed Price'', ''Retainer'']),
      (''total_amount'', NumCol [25000, 3000]),
      (''total_hours'', NumCol [150, 20]),
      (''num_services'', NumCol [3, 1]),
      (''amount_per_hour'', NumCol [500 / 3, 150]),
      (''is_large_project'', NumCol [1, 0]),
      (''is_enterprise_client'', NumCol [1, 0]),
      (''discount'', NumCol [10.5, 0]),
      (''tax_rate'', NumCol [8.5, 20]),
      (''needs_detailed_docs'', NumCol [1, 0])]"

definition mean_fit :: "column list \<Rightarrow> column \<Rightarrow> exn + regressor" where
  "mean_fit X y =
     (case y of
        NumCol ys \<Rightarrow>
          if ys = [] then Inl ValueError
          else Inr (\<lambda>x. Inr (sum_list ys / real (length ys)))
      | StrCol ys \<Rightarrow> Inl ValueError)"

definition flag_fit :: "column list \<Rightarrow> column \<Rightarrow> exn + classifier" where
  "flag_fit X y =
     (case y of
        NumCol ys \<Rightarrow>
          if ys = [] then Inl ValueError
          else Inr (\<lambda>x. Inr (if x ! 8 = PyInt 1 then 1 else 0))
      | StrCol ys \<Rightarrow> Inl ValueError)"

definition training_world :: world where
  "training_world =
     \<lparr> joblib_files = Map.empty,
       csv_files = [''it_invoice_dataset.csv'' \<mapsto> Table training_table],
       writable = (\<lambda>f. True),
       numpy_float = (\<lambda>s. None),
       rf_regressor_fit = mean_fit,
       rf_classifier_fit = flag_fit \<rparr>"

section \<open>Properties\<close>

subsection \<open>The lookups of the payment terms\<close>

text \<open>The three dictionary literals \<open>payment_terms_map\<close> of the two predictors are equal.\<close>

lemma payment_terms_maps_agree:
  "defaults_payment_terms_map = predict_payment_terms_map"
  "simple_payment_terms_map = predict_payment_terms_map"
  by (simp_all add: defaults_payment_terms_map_def predict_payment_terms_map_def
        simple_payment_terms_map_def)

subsection \<open>Rounding\<close>

lemma round_half_even_bounds:
  "\<lfloor>y\<rfloor> \<le> round_half_even y \<and> round_half_even y \<le> \<lceil>y\<rceil>"
proof (cases "y = of_int \<lfloor>y\<rfloor>")
  case True
  then have "\<lceil>y\<rceil> = \<lfloor>y\<rfloor>"
    by (metis ceiling_of_int)
  with True show ?thesis
    by (simp add: round_half_even_def Let_def)
next
  case False
  then have "\<lceil>y\<rceil> = \<lfloor>y\<rfloor> + 1"
    by (simp add: ceiling_altdef)
  then show ?thesis
    by (simp add: round_half_even_def Let_def)
qed

text \<open>Rounding to two decimals keeps a number between 0 and an integer bound.\<close>

lemma py_round2_range:
  assumes "0 \<le> x" and "x \<le> of_int c"
  shows "0 \<le> py_round2 x \<and> py_round2 x \<le> of_int c"
proof -
  have lo: "0 \<le> \<lfloor>x * 100\<rfloor>"
    using assms(1) by simp
  have "x * 100 \<le> of_int (c * 100)"
    using assms(2) by simp
  then have hi: "\<lceil>x * 100\<rceil> \<le> c * 100"
    by (simp only: ceiling_le_iff)
  have a: "0 \<le> round_half_even (x * 100)"
    using lo round_half_even_bounds [of "x * 100"] by linarith
  have b: "round_half_even (x * 100) \<le> c * 100"
    using hi round_half_even_bounds [of "x * 100"] by linarith
  from b have "(of_int (round_half_even (x * 100)) :: real) \<le> of_int (c * 100)"
    by (simp only: of_int_le_iff)
  with a show ?thesis
    by (simp add: py_round2_def)
qed

subsection \<open>Numbers among the values\<close>

text \<open>
  \<open>py_float a = Inr r\<close> says that \<open>a\<close> is a float, or an \<open>int\<close> that a float can
  hold, with the value \<open>r\<close>. Such a value compares with every literal, and the rule-based
  defaults return for it.
\<close>

lemma py_gt_number:
  assumes "py_float a = Inr r"
  shows "py_gt a c = Inr (r > of_int c)"
  using assms by (cases a) (auto simp: py_float_def py_gt_def split: if_splits)

lemma defaults_discount_number:
  assumes "py_float a = Inr r"
  shows "defaults_discount a =
           Inr (if r > 20000 then 10 else if r > 10000 then 5 else if r > 5000 then 2 else 0)"
  using py_gt_number [OF assms, of 20000] py_gt_number [OF assms, of 10000]
    py_gt_number [OF assms, of 5000]
  by (simp add: defaults_discount_def)

lemma defaults_doc_complexity_number:
  assumes "py_float a = Inr r"
  shows "defaults_doc_complexity a =
           Inr (if r > 15000 then ''High'' else if r > 5000 then ''Medium'' else ''Low'')"
  using py_gt_number [OF assms, of 15000] py_gt_number [OF assms, of 5000]
  by (simp add: defaults_doc_complexity_def)

lemma get_smart_defaults_number:
  assumes "py_float a = Inr r"
  shows "get_smart_defaults sc ci pt a =
           Inr \<lparr> discount =
                   (if r > 20000 then 10 else if r > 10000 then 5
                    else if r > 5000 then 2 else 0),
                 tax_rate = 8.5,
                 documentation_complexity =
                   (if r > 15000 then ''High'' else if r > 5000 then ''Medium''
                    else ''Low''),
                 payment_terms = dict_get defaults_payment_terms_map pt ''Net 30'',
                 service_notes =
                   ''Professional '' @ sc @ '' services for '' @ ci
                   @ '' sector. Total project value: $'' @ format_amount r \<rparr>"
  by (simp add: get_smart_defaults_def defaults_discount_number [OF assms]
        defaults_doc_complexity_number [OF assms] format_2f_def assms)

lemma simple_predict_number:
  assumes "py_float a = Inr r"
  shows "simple_predict sp sc ci co pt a h n =
           \<lparr> discount = (if r > 10000 then 5 else if r > 5000 then 3 else 0),
             tax_rate = 8.5,
             documentation_complexity =
               (if r > 15000 then ''High'' else if r > 5000 then ''Medium'' else ''Low''),
             payment_terms = dict_get simple_payment_terms_map pt ''Net 30'',
             service_notes = dict_get simple_service_notes_map sc
               ''Professional IT services delivered to industry standards.'' \<rparr>"
  using py_gt_number [OF assms, of 15000] py_gt_number [OF assms, of 10000]
    py_gt_number [OF assms, of 5000]
  by (simp add: simple_predict_def simple_predict_try_def simple_discount_def
        simple_doc_complexity_def)

subsection \<open>The paths of predict\<close>

text \<open>Training and loading set \<open>models_loaded\<close> when they return \<open>True\<close>.\<close>

lemma train_models_True:
  assumes "train_models p w = (True, p1)"
  shows "models_loaded p1"
  using assms
  by (auto simp: train_models_def train_models_try_def Let_def
        split: prod.splits bool.splits option.splits sum.splits)

lemma load_models_True:
  assumes "load_models p w f = (True, p1)"
  shows "models_loaded p1"
  using assms
  by (auto simp: load_models_def load_models_try_def Let_def dest: train_models_True
        split: prod.splits sum.splits)

text \<open>
  The first step of \<open>predict\<close>: the models that are loaded already, or the attempt to
  load them.
\<close>

lemma artifact_check_True:
  assumes "(if \<not> models_loaded p then load_models p w models_filename else (True, p)) = (True, p1)"
  shows "models_loaded p1"
  using assms by (auto split: if_splits dest: load_models_True)

text \<open>
  When the \<open>try\<close> returns the defaults or raises, \<open>predict\<close> gives what
  \<open>_get_smart_defaults\<close> gives: its dictionary, or its exception.
\<close>

lemma predict_of_return_defaults:
  assumes "predict_try p w sc ci co pt a h n = return_defaults sc ci pt a p1"
  shows "predict p w sc ci co pt a h n = (get_smart_defaults sc ci pt a, p1)"
  using assms by (simp add: predict_def return_defaults_def split: sum.splits)

lemma predict_load_failure:
  assumes "(if \<not> models_loaded p then load_models p w models_filename else (True, p)) = (False, p1)"
  shows "predict p w sc ci co pt a h n = (get_smart_defaults sc ci pt a, p1)"
  by (rule predict_of_return_defaults) (simp add: predict_try_def assms)

lemma predict_preparation_failure:
  assumes "(if \<not> models_loaded p then load_models p w models_filename else (True, p)) = (True, p1)"
      and "prepare_features_for_prediction p1 sc ci co pt a h n = None"
  shows "predict p w sc ci co pt a h n = (get_smart_defaults sc ci pt a, p1)"
  by (rule predict_of_return_defaults) (simp add: predict_try_def assms)


lemma predict_inference:
  assumes "(if \<not> models_loaded p then load_models p w models_filename else (True, p)) = (True, p1)"
      and "prepare_features_for_prediction p1 sc ci co pt a h n = Some X"
      and "predict_float (discount_model p1) X = Inr d"
      and "predict_float (tax_model p1) X = Inr t"
      and "predict_int (docs_model p1) X = Inr k"
  shows "predict p w sc ci co pt a h n =
           (Inr \<lparr> discount = py_round2 (max 0 (min 20 d)),
                  tax_rate = py_round2 (max 0 (min 25 t)),
                  documentation_complexity = (if k \<noteq> 0 then ''High'' else ''Medium''),
                  payment_terms = dict_get predict_payment_terms_map pt ''Net 30'',
                  service_notes = dict_get predict_service_notes_map sc
                    ''Professional IT services delivered to industry standards.'' \<rparr>,
            p1)"
  using assms artifact_check_True [OF assms(1)]
  by (simp add: predict_def predict_try_def)

text \<open>Without a model file and without a dataset file the defaults answer.\<close>

lemma predict_cold_start:
  assumes "\<not> models_loaded p"
      and "joblib_files w models_filename = None"
      and "csv_files w ''it_invoice_dataset.csv'' = None"
  shows "predict p w sc ci co pt a h n = (get_smart_defaults sc ci pt a, p)"
proof -
  have "load_models p w models_filename = (False, p)"
    using assms(2,3)
    by (simp add: load_models_def load_models_try_def joblib_load_def train_models_def
          load_dataset_def read_csv_def)
  with assms(1) show ?thesis
    by (simp add: predict_load_failure)
qed

text \<open>
  Every call ends on one of two paths: the defaults, or the inference with clamped
  estimator outputs.
\<close>

lemma predict_try_cases:
  "(\<exists>p1. predict_try p w sc ci co pt a h n = return_defaults sc ci pt a p1)
   \<or> (\<exists>e p1. predict_try p w sc ci co pt a h n = (Inl e, p1))
   \<or> (\<exists>d t doc p1. predict_try p w sc ci co pt a h n = (Inr (Inferred d t doc), p1) \<and>
         0 \<le> d \<and> d \<le> 20 \<and> 0 \<le> t \<and> t \<le> 25 \<and> (doc = ''High'' \<or> doc = ''Medium''))"
proof (cases "if \<not> models_loaded p then load_models p w models_filename else (True, p)")
  case (Pair ok p1)
  show ?thesis
  proof (cases ok)
    case False
    with Pair have "predict_try p w sc ci co pt a h n = return_defaults sc ci pt a p1"
      by (simp add: predict_try_def)
    then show ?thesis by blast
  next
    case True
    with Pair have ok:
      "(if \<not> models_loaded p then load_models p w models_filename else (True, p)) = (True, p1)"
      by simp
    show ?thesis
    proof (cases "prepare_features_for_prediction p1 sc ci co pt a h n")
      case None
      with ok have "predict_try p w sc ci co pt a h n = return_defaults sc ci pt a p1"
        by (simp add: predict_try_def)
      then show ?thesis by blast
    next
      case (Some X)
      have l: "models_loaded p1"
        by (rule artifact_check_True [OF ok])
      show ?thesis
      proof (cases "predict_float (discount_model p1) X")
        case (Inl e)
        with ok Some l have "predict_try p w sc ci co pt a h n = (Inl e, p1)"
          by (simp add: predict_try_def)
        then show ?thesis by blast
      next
        case d: (Inr d)
        show ?thesis
        proof (cases "predict_float (tax_model p1) X")
          case (Inl e)
          with ok Some l d have "predict_try p w sc ci co pt a h n = (Inl e, p1)"
            by (simp add: predict_try_def)
          then show ?thesis by blast
        next
          case t: (Inr t)
          show ?thesis
          proof (cases "predict_int (docs_model p1) X")
            case (Inl e)
            with ok Some l d t have "predict_try p w sc ci co pt a h n = (Inl e, p1)"
              by (simp add: predict_try_def)
            then show ?thesis by blast
          next
            case (Inr k)
            with ok Some l d t have "predict_try p w sc ci co pt a h n =
                (Inr (Inferred (max 0 (min 20 d)) (max 0 (min 25 t))
                        (if k \<noteq> 0 then ''High'' else ''Medium'')), p1)"
              by (simp add: predict_try_def)
            moreover have "0 \<le> max 0 (min 20 d) \<and> max 0 (min 20 d) \<le> 20 \<and>
                0 \<le> max 0 (min 25 t) \<and> max 0 (min 25 t) \<le> 25"
              by simp
            ultimately show ?thesis by auto
          qed
        qed
      qed
    qed
  qed
qed

lemma predict_cases:
  "fst (predict p w sc ci co pt a h n) = get_smart_defaults sc ci pt a
   \<or> (\<exists>d t doc. 0 \<le> d \<and> d \<le> 20 \<and> 0 \<le> t \<and> t \<le> 25 \<and> (doc = ''High'' \<or> doc = ''Medium'') \<and>
         fst (predict p w sc ci co pt a h n) =
           Inr \<lparr> discount = py_round2 d, tax_rate = py_round2 t,
                  documentation_complexity = doc,
                  payment_terms = dict_get predict_payment_terms_map pt ''Net 30'',
                  service_notes = dict_get predict_service_notes_map sc
                    ''Professional IT services delivered to industry standards.'' \<rparr>)"
proof -
  consider
    (dflt) p1 where "predict_try p w sc ci co pt a h n = return_defaults sc ci pt a p1"
  | (exc) e p1 where "predict_try p w sc ci co pt a h n = (Inl e, p1)"
  | (inf) d t doc p1 where
      "predict_try p w sc ci co pt a h n = (Inr (Inferred d t doc), p1)"
      "0 \<le> d" "d \<le> 20" "0 \<le> t" "t \<le> 25" "doc = ''High'' \<or> doc = ''Medium''"
    using predict_try_cases [of p w sc ci co pt a h n] by blast
  then show ?thesis
  proof cases
    case dflt
    then show ?thesis by (simp add: predict_of_return_defaults)
  next
    case exc
    then show ?thesis by (simp add: predict_def)
  next
    case inf
    from inf(1) have "fst (predict p w sc ci co pt a h n) =
        Inr \<lparr> discount = py_round2 d, tax_rate = py_round2 t,
               documentation_complexity = doc,
               payment_terms = dict_get predict_payment_terms_map pt ''Net 30'',
               service_notes = dict_get predict_service_notes_map sc
                 ''Professional IT services delivered to industry standards.'' \<rparr>"
      by (simp add: predict_def)
    with inf(2-6) show ?thesis by blast
  qed
qed

text \<open>
  For a number as \<open>total_amount\<close> every call returns a bundle.
\<close>

lemma predict_returns:
  assumes "py_float a = Inr r"
  shows "\<exists>b. fst (predict p w sc ci co pt a h n) = Inr b"
  using predict_cases [of p w sc ci co pt a h n] get_smart_defaults_number [OF assms, of sc ci pt]
  by auto

text \<open>The bundle of the defaults and the bundle of the inference are in range.\<close>

lemma payment_terms_known:
  "dict_get predict_payment_terms_map pt ''Net 30''
     \<in> set [''50% Advance, 50% on Completion'', ''Net 30'',
        ''Monthly in Advance'', ''Quarterly in Advance'']"
  by (simp add: predict_payment_terms_map_def dict_get_def)

lemma service_notes_nonempty:
  "dict_get predict_service_notes_map sc
     ''Professional IT services delivered to industry standards.'' \<noteq> []"
  by (simp add: predict_service_notes_map_def dict_get_def)

lemma defaults_discount_range:
  assumes "defaults_discount a = Inr d"
  shows "0 \<le> d \<and> d \<le> 20"
  using assms
  by (auto simp: defaults_discount_def split: sum.splits bool.splits)

lemma defaults_doc_complexity_range:
  assumes "defaults_doc_complexity a = Inr doc"
  shows "doc \<in> set [''Low'', ''Medium'', ''High'']"
  using assms
  by (auto simp: defaults_doc_complexity_def split: sum.splits bool.splits)

lemma get_smart_defaults_in_range:
  assumes "get_smart_defaults sc ci pt a = Inr b"
  shows "in_range b"
proof -
  from assms obtain d doc s where
    d: "defaults_discount a = Inr d" and doc: "defaults_doc_complexity a = Inr doc" and
    b: "b = \<lparr> discount = d, tax_rate = 8.5, documentation_complexity = doc,
              payment_terms = dict_get defaults_payment_terms_map pt ''Net 30'',
              service_notes = ''Professional '' @ sc @ '' services for '' @ ci
                @ '' sector. Total project value: $'' @ s \<rparr>"
    by (auto simp: get_smart_defaults_def split: sum.splits)
  from defaults_discount_range [OF d] defaults_doc_complexity_range [OF doc]
    payment_terms_known [of pt]
  show ?thesis
    by (simp add: in_range_def b payment_terms_maps_agree)
qed

lemma inference_in_range:
  assumes "0 \<le> d" "d \<le> 20" "0 \<le> t" "t \<le> 25" "doc = ''High'' \<or> doc = ''Medium''"
  shows "in_range \<lparr> discount = py_round2 d, tax_rate = py_round2 t,
                  documentation_complexity = doc,
                  payment_terms = dict_get predict_payment_terms_map pt ''Net 30'',
                  service_notes = dict_get predict_service_notes_map sc
                    ''Professional IT services delivered to industry standards.'' \<rparr>"
proof -
  have "0 \<le> py_round2 d \<and> py_round2 d \<le> 20"
    using py_round2_range [of d 20] assms by simp
  moreover have "0 \<le> py_round2 t \<and> py_round2 t \<le> 25"
    using py_round2_range [of t 25] assms by simp
  ultimately show ?thesis
    using assms(5) payment_terms_known [of pt] service_notes_nonempty [of sc]
    by (auto simp: in_range_def)
qed

text \<open>Whatever the values of the parameters are, a bundle that is returned is in range.\<close>

lemma predict_in_range:
  assumes "fst (predict p w sc ci co pt a h n) = Inr b"
  shows "in_range b"
  using predict_cases [of p w sc ci co pt a h n] assms
    get_smart_defaults_in_range [of sc ci pt a b] inference_in_range
  by (metis (no_types, lifting) Inr_inject)

subsection \<open>The example worlds, evaluated\<close>

lemma init_not_loaded: "\<not> models_loaded init"
  by (simp add: init_def)

lemma empty_world_no_files:
  "joblib_files empty_world models_filename = None"
  "csv_files empty_world ''it_invoice_dataset.csv'' = None"
  by (simp_all add: empty_world_def)

lemma artifact_world_loads:
  "(if \<not> models_loaded init then load_models init artifact_world models_filename
    else (True, init)) = (True, loaded_example)"
  by (simp add: load_models_def load_models_try_def joblib_load_def artifact_world_def
        empty_world_def example_artifact_def pickle_getitem_def pickle_get_def
        dict_getitem_def dict_get_def loaded_example_def models_filename_def init_def)

lemma loaded_example_features_large:
  "prepare_features_for_prediction loaded_example ''Cybersecurity'' ''Finance'' ''US''
     ''Fixed Price'' (PyFloat 25000) (PyInt 150) (PyInt 3)
   = Some [PyInt 1, PyInt 1, PyInt 1, PyInt 0, PyFloat 25000, PyInt 150, PyInt 3,
           PyFloat (500 / 3), PyInt 1, PyInt 1]"
  by (simp add: prepare_features_for_prediction_def prepare_features_try_def
        encode_category_def encoders_contains_def loaded_example_def example_encoders_def
        dict_getitem_def transform_def py_max_1_def py_truediv_def py_float_def py_gt_def
        float_overflow_bound_def)

lemma loaded_example_features_small:
  "prepare_features_for_prediction loaded_example ''Cybersecurity'' ''Finance'' ''US''
     ''Fixed Price'' (PyFloat 3000) (PyInt 20) (PyInt 1)
   = Some [PyInt 1, PyInt 1, PyInt 1, PyInt 0, PyFloat 3000, PyInt 20, PyInt 1,
           PyFloat 150, PyInt 0, PyInt 1]"
  by (simp add: prepare_features_for_prediction_def prepare_features_try_def
        encode_category_def encoders_contains_def loaded_example_def example_encoders_def
        dict_getitem_def transform_def py_max_1_def py_truediv_def py_float_def py_gt_def
        float_overflow_bound_def)

lemma loaded_example_outputs_large:
  "predict_float (discount_model loaded_example)
     [PyInt 1, PyInt 1, PyInt 1, PyInt 0, PyFloat 25000, PyInt 150, PyInt 3,
      PyFloat (500 / 3), PyInt 1, PyInt 1] = Inr 25"
  "predict_float (tax_model loaded_example)
     [PyInt 1, PyInt 1, PyInt 1, PyInt 0, PyFloat 25000, PyInt 150, PyInt 3,
      PyFloat (500 / 3), PyInt 1, PyInt 1] = Inr (- 3)"
  "predict_int (docs_model loaded_example)
     [PyInt 1, PyInt 1, PyInt 1, PyInt 0, PyFloat 25000, PyInt 150, PyInt 3,
      PyFloat (500 / 3), PyInt 1, PyInt 1] = Inr 1"
  by (simp_all add: predict_float_def predict_int_def loaded_example_def
        example_discount_model_def example_tax_model_def example_docs_model_def py_float_def)

lemma loaded_example_outputs_small:
  "predict_float (discount_model loaded_example)
     [PyInt 1, PyInt 1, PyInt 1, PyInt 0, PyFloat 3000, PyInt 20, PyInt 1,
      PyFloat 150, PyInt 0, PyInt 1] = Inr 3"
  "predict_float (tax_model loaded_example)
     [PyInt 1, PyInt 1, PyInt 1, PyInt 0, PyFloat 3000, PyInt 20, PyInt 1,
      PyFloat 150, PyInt 0, PyInt 1] = Inr (- 3)"
  "predict_int (docs_model loaded_example)
     [PyInt 1, PyInt 1, PyInt 1, PyInt 0, PyFloat 3000, PyInt 20, PyInt 1,
      PyFloat 150, PyInt 0, PyInt 1] = Inr 0"
  by (simp_all add: predict_float_def predict_int_def loaded_example_def
        example_discount_model_def example_tax_model_def example_docs_model_def py_float_def)

subsection \<open>When predict returns and when an exception leaves it\<close>


text \<open>
  The same with loaded models, where the preparation of the features fails first; and for
  an \<open>int\<close> beyond the float range, which the f-string cannot format.
\<close>

lemma predict_raises_with_loaded_models:
  "fst (predict init artifact_world ''Cybersecurity'' ''Finance'' ''US'' ''Fixed Price''
          PyNone (PyInt 150) (PyInt 3)) = Inl TypeError"
proof -
  have "prepare_features_for_prediction loaded_example ''Cybersecurity'' ''Finance'' ''US''
          ''Fixed Price'' PyNone (PyInt 150) (PyInt 3) = None"
    by (simp add: prepare_features_for_prediction_def prepare_features_try_def
          encode_category_def encoders_contains_def loaded_example_def example_encoders_def
          dict_getitem_def transform_def py_max_1_def py_truediv_def)
  then show ?thesis
    by (simp add: predict_preparation_failure [OF artifact_world_loads]
          get_smart_defaults_def defaults_discount_def py_gt_def)
qed

lemma predict_raises_on_int_overflow:
  "fst (predict init empty_world ''Cybersecurity'' ''Finance'' ''US'' ''Fixed Price''
          (PyInt (10 ^ 309)) (PyInt 150) (PyInt 3)) = Inl OverflowError"
  by (simp add: predict_cold_start [OF init_not_loaded empty_world_no_files]
        get_smart_defaults_def defaults_discount_def defaults_doc_complexity_def py_gt_def
        format_2f_def py_float_def float_overflow_bound_def)



subsection \<open>The bundle is in range on every path\<close>

text \<open>
  C2. For every input, every predictor and every world, \<open>predict\<close> returns a bundle
  when \<open>total_amount\<close> is a number (a float, or an \<open>int\<close> that a float can hold), and
  every bundle that \<open>predict\<close> returns, whatever the values of the parameters are, has a
  discount in [0, 20], a tax rate in [0, 25], a documentation complexity among Low, Medium
  and High, payment terms among the four known values and non-empty service notes; and on
  the inference path the discount and the tax rate are the raw outputs of the estimators
  clamped into these intervals (then rounded to two decimals).
\<close>

theorem predict_bundle_in_range:
  "(py_float a = Inr r \<longrightarrow> (\<exists>b. fst (predict p w sc ci co pt a h n) = Inr b)) \<and>
   (\<forall>b. fst (predict p w sc ci co pt a h n) = Inr b \<longrightarrow>
     0 \<le> discount b \<and> discount b \<le> 20 \<and>
     0 \<le> tax_rate b \<and> tax_rate b \<le> 25 \<and>
     documentation_complexity b \<in> set [''Low'', ''Medium'', ''High''] \<and>
     payment_terms b \<in> set [''50% Advance, 50% on Completion'', ''Net 30'',
       ''Monthly in Advance'', ''Quarterly in Advance''] \<and>
     service_notes b \<noteq> [] \<and>
     (\<forall>p1 X d t k.
        (if \<not> models_loaded p then load_models p w models_filename else (True, p))
          = (True, p1) \<and>
        prepare_features_for_prediction p1 sc ci co pt a h n = Some X \<and>
        predict_float (discount_model p1) X = Inr d \<and>
        predict_float (tax_model p1) X = Inr t \<and>
        predict_int (docs_model p1) X = Inr k
        \<longrightarrow> discount b = py_round2 (max 0 (min 20 d)) \<and>
            tax_rate b = py_round2 (max 0 (min 25 t)) \<and>
            0 \<le> max 0 (min 20 d) \<and> max 0 (min 20 d) \<le> 20 \<and>
            0 \<le> max 0 (min 25 t) \<and> max 0 (min 25 t) \<le> 25))"
proof -
  have returns: "py_float a = Inr r \<longrightarrow> (\<exists>b. fst (predict p w sc ci co pt a h n) = Inr b)"
    by (simp add: predict_returns)
  have ranges: "0 \<le> discount b \<and> discount b \<le> 20 \<and>
     0 \<le> tax_rate b \<and> tax_rate b \<le> 25 \<and>
     documentation_complexity b \<in> set [''Low'', ''Medium'', ''High''] \<and>
     payment_terms b \<in> set [''50% Advance, 50% on Completion'', ''Net 30'',
       ''Monthly in Advance'', ''Quarterly in Advance''] \<and>
     service_notes b \<noteq> [] \<and>
     (\<forall>p1 X d t k.
        (if \<not> models_loaded p then load_models p w models_filename else (True, p))
          = (True, p1) \<and>
        prepare_features_for_prediction p1 sc ci co pt a h n = Some X \<and>
        predict_float (discount_model p1) X = Inr d \<and>
        predict_float (tax_model p1) X = Inr t \<and>
        predict_int (docs_model p1) X = Inr k
        \<longrightarrow> discount b = py_round2 (max 0 (min 20 d)) \<and>
            tax_rate b = py_round2 (max 0 (min 25 t)) \<and>
            0 \<le> max 0 (min 20 d) \<and> max 0 (min 20 d) \<le> 20 \<and>
            0 \<le> max 0 (min 25 t) \<and> max 0 (min 25 t) \<le> 25)"
    if b: "fst (predict p w sc ci co pt a h n) = Inr b" for b
  proof -
    have r: "in_range b"
      by (rule predict_in_range [OF b])
    have "discount b = py_round2 (max 0 (min 20 d)) \<and>
          tax_rate b = py_round2 (max 0 (min 25 t)) \<and>
          0 \<le> max 0 (min 20 d) \<and> max 0 (min 20 d) \<le> 20 \<and>
          0 \<le> max 0 (min 25 t) \<and> max 0 (min 25 t) \<le> 25"
      if "(if \<not> models_loaded p then load_models p w models_filename else (True, p))
            = (True, p1) \<and>
          prepare_features_for_prediction p1 sc ci co pt a h n = Some X \<and>
          predict_float (discount_model p1) X = Inr d \<and>
          predict_float (tax_model p1) X = Inr t \<and>
          predict_int (docs_model p1) X = Inr k"
      for p1 X d t k
    proof -
      from that have "fst (predict p w sc ci co pt a h n) =
          Inr \<lparr> discount = py_round2 (max 0 (min 20 d)),
                 tax_rate = py_round2 (max 0 (min 25 t)),
                 documentation_complexity = (if k \<noteq> 0 then ''High'' else ''Medium''),
                 payment_terms = dict_get predict_payment_terms_map pt ''Net 30'',
                 service_notes = dict_get predict_service_notes_map sc
                   ''Professional IT services delivered to industry standards.'' \<rparr>"
        by (simp add: predict_inference [of p w p1 sc ci co pt a h n X d t k])
      with b show ?thesis by auto
    qed
    with r show ?thesis
      unfolding in_range_def by blast
  qed
  from returns ranges show ?thesis
    by blast
qed

text \<open>
  On the inference path at a concrete input: the discount estimator answers 25 and the tax
  estimator -3; the bundle has the discount 20 and the tax rate 0.
\<close>

theorem predict_bundle_in_range_witness:
  "\<exists>b. fst (predict init artifact_world ''Cybersecurity'' ''Finance'' ''US'' ''Fixed Price''
             (PyFloat 25000) (PyInt 150) (PyInt 3)) = Inr b \<and>
     discount b = 20 \<and> tax_rate b = 0 \<and>
     documentation_complexity b \<in> set [''Low'', ''Medium'', ''High''] \<and>
     service_notes b \<noteq> []"
proof -
  have n: "py_float (PyFloat 25000) = Inr 25000"
    by (simp add: py_float_def)
  have r: "py_round2 (max 0 (min 20 25)) = 20" "py_round2 (max 0 (min 25 (- 3))) = 0"
    by (simp_all add: py_round2_def round_half_even_def)
  have inst: "(py_float (PyFloat 25000) = Inr 25000 \<longrightarrow>
      (\<exists>b. fst (predict init artifact_world ''Cybersecurity'' ''Finance'' ''US''
               ''Fixed Price'' (PyFloat 25000) (PyInt 150) (PyInt 3)) = Inr b)) \<and>
   (\<forall>b. fst (predict init artifact_world ''Cybersecurity'' ''Finance'' ''US''
               ''Fixed Price'' (PyFloat 25000) (PyInt 150) (PyInt 3)) = Inr b \<longrightarrow>
     0 \<le> discount b \<and> discount b \<le> 20 \<and>
     0 \<le> tax_rate b \<and> tax_rate b \<le> 25 \<and>
     documentation_complexity b \<in> set [''Low'', ''Medium'', ''High''] \<and>
     payment_terms b \<in> set [''50% Advance, 50% on Completion'', ''Net 30'',
       ''Monthly in Advance'', ''Quarterly in Advance''] \<and>
     service_notes b \<noteq> [] \<and>
     (\<forall>p1 X d t k.
        (if \<not> models_loaded init then load_models init artifact_world models_filename
         else (True, init)) = (True, p1) \<and>
        prepare_features_for_prediction p1 ''Cybersecurity'' ''Finance'' ''US''
          ''Fixed Price'' (PyFloat 25000) (PyInt 150) (PyInt 3) = Some X \<and>
        predict_float (discount_model p1) X = Inr d \<and>
        predict_float (tax_model p1) X = Inr t \<and>
        predict_int (docs_model p1) X = Inr k
        \<longrightarrow> discount b = py_round2 (max 0 (min 20 d)) \<and>
            tax_rate b = py_round2 (max 0 (min 25 t)) \<and>
            0 \<le> max 0 (min 20 d) \<and> max 0 (min 20 d) \<le> 20 \<and>
            0 \<le> max 0 (min 25 t) \<and> max 0 (min 25 t) \<le> 25))"
    by (rule predict_bundle_in_range [of "PyFloat 25000" 25000 init artifact_world
          "''Cybersecurity''" "''Finance''" "''US''" "''Fixed Price''" "PyInt 150" "PyInt 3"])
  from inst n obtain b where
    b: "fst (predict init artifact_world ''Cybersecurity'' ''Finance'' ''US'' ''Fixed Price''
               (PyFloat 25000) (PyInt 150) (PyInt 3)) = Inr b"
    by blast
  from inst b have g: "documentation_complexity b \<in> set [''Low'', ''Medium'', ''High'']"
    "service_notes b \<noteq> []"
    by blast+
  from inst b artifact_world_loads loaded_example_features_large
    loaded_example_outputs_large
  have "discount b = py_round2 (max 0 (min 20 25)) \<and>
      tax_rate b = py_round2 (max 0 (min 25 (- 3)))"
    by blast
  with r b g show ?thesis
    by auto
qed

subsection \<open>Categories that the encoders have not seen\<close>

text \<open>
  The code of one categorical value: with a dictionary of encoders that holds no object
  without \<open>transform\<close>, encoding raises nothing, and a value that is not among the
  classes of the fitted encoder of its column has the code 0.
\<close>

lemma encode_category_total:
  assumes "NotAnEncoder \<notin> ran m"
  shows "\<exists>c. encode_category (Encoders m) col v = Inr c \<and>
           (\<forall>cs. m col = Some (Fitted cs) \<and> v \<notin> set cs \<longrightarrow> c = PyInt 0)"
proof (cases "m col")
  case None
  then show ?thesis
    by (simp add: encode_category_def encoders_contains_def dom_def)
next
  case (Some enc)
  with assms have "enc \<noteq> NotAnEncoder"
    by (auto simp: ran_def)
  with Some show ?thesis
    by (cases enc)
       (auto simp: encode_category_def encoders_contains_def dom_def dict_getitem_def
          transform_def is_ValueError_def split: option.splits)
qed

text \<open>
  When \<open>self.encoders\<close> is no dictionary: a list that does not hold the name of the
  column, and a fitted forest, give the code 0; a list that holds it cannot be indexed by
  it; a forest before \<open>fit\<close> and \<open>None\<close> raise at the test \<open>in\<close>.
\<close>

lemma encode_category_without_dictionary:
  "encode_category (ListObject xs) col v
     = (if col \<in> set xs then Inl TypeError else Inr (PyInt 0))"
  "encode_category (Regressor r) col v = Inr (PyInt 0)"
  "encode_category (Classifier c) col v = Inr (PyInt 0)"
  "encode_category UnfittedForest col v = Inl AttributeError"
  "encode_category NoneObject col v = Inl TypeError"
  by (simp_all add: encode_category_def encoders_contains_def)

text \<open>
  The derived features of two numbers: the divisor is at least 1, so the quotient
  exists and is within the float range.
\<close>

lemma float_overflow_bound_large: "1 < float_overflow_bound"
  by (simp add: float_overflow_bound_def)

lemma int_quotient_in_range:
  assumes "\<bar>i\<bar> < float_overflow_bound" and "1 \<le> j"
  shows "\<bar>(of_int i :: real) / of_int j\<bar> < of_int float_overflow_bound"
proof -
  have "\<bar>(of_int i :: real) / of_int j\<bar> = \<bar>of_int i\<bar> / of_int j"
    using assms(2) by simp
  also have "\<dots> \<le> \<bar>of_int i\<bar>"
    using assms(2) by (simp add: divide_le_eq mult_le_cancel_left1)
  also have "\<dots> < of_int float_overflow_bound"
    using assms(1) by linarith
  finally show ?thesis .
qed

lemma derived_features_of_numbers:
  assumes "py_float a = Inr ra" and "py_float h = Inr rh"
  shows "\<exists>divisor q. py_max_1 h = Inr divisor \<and> py_truediv a divisor = Inr (PyFloat q)"
proof (cases h)
  case (PyInt j)
  define k where "k = (if 1 > j then 1 else j)"
  have k: "1 \<le> k" "\<bar>k\<bar> < float_overflow_bound"
    using assms(2) float_overflow_bound_large
    by (auto simp: k_def PyInt py_float_def split: if_splits)
  have m: "py_max_1 h = Inr (PyInt k)"
    by (simp add: PyInt py_max_1_def k_def)
  show ?thesis
  proof (cases a)
    case (PyInt i)
    with assms(1) have "\<bar>i\<bar> < float_overflow_bound"
      by (auto simp: py_float_def split: if_splits)
    from int_quotient_in_range [OF this k(1)] k(1) PyInt m show ?thesis
      by (auto simp: py_truediv_def)
  next
    case (PyFloat x)
    with k m show ?thesis
      by (auto simp: py_truediv_def py_float_def)
  qed (use assms(1) in \<open>auto simp: py_float_def\<close>)
next
  case (PyFloat y)
  show ?thesis
  proof (cases "1 > y")
    case True
    with PyFloat have m: "py_max_1 h = Inr (PyInt 1)"
      by (simp add: py_max_1_def)
    show ?thesis
    proof (cases a)
      case (PyInt i)
      with assms(1) have "\<bar>i\<bar> < float_overflow_bound"
        by (auto simp: py_float_def split: if_splits)
      from int_quotient_in_range [OF this, of 1] PyInt m show ?thesis
        by (auto simp: py_truediv_def)
    next
      case (PyFloat x)
      with m float_overflow_bound_large show ?thesis
        by (auto simp: py_truediv_def py_float_def)
    qed (use assms(1) in \<open>auto simp: py_float_def\<close>)
  next
    case False
    with PyFloat have m: "py_max_1 h = Inr (PyFloat y)" and y: "y \<noteq> 0"
      by (auto simp: py_max_1_def)
    show ?thesis
    proof (cases a)
      case (PyInt i)
      with assms(1) m y show ?thesis
        by (auto simp: py_truediv_def py_float_def split: if_splits)
    next
      case (PyFloat x)
      with m y show ?thesis
        by (auto simp: py_truediv_def py_float_def)
    qed (use assms(1) in \<open>auto simp: py_float_def\<close>)
  qed
qed (use assms(2) in \<open>auto simp: py_float_def\<close>)

text \<open>
  C3. With a fitted encoder table (a dictionary that holds encoders only) and numbers as
  \<open>total_amount\<close> and \<open>total_hours\<close>, for every input record feature preparation
  raises nothing and returns the ten features; each of the four categorical values
  (service_category, client_industry, country, project_type) that is absent from the
  classes of its fitted encoder is encoded as 0; and \<open>predict\<close> returns a bundle.
\<close>

theorem unseen_category_encodes_zero:
  assumes "encoders p = Encoders m" and "NotAnEncoder \<notin> ran m"
      and "py_float a = Inr ra" and "py_float h = Inr rh"
  shows "\<exists>X. prepare_features_for_prediction p sc ci co pt a h n = Some X \<and>
           prepare_features_try p sc ci co pt a h n = Inr X \<and>
           length X = 10 \<and>
           (\<forall>cs. m ''service_category'' = Some (Fitted cs) \<and> sc \<notin> set cs
              \<longrightarrow> X ! 0 = PyInt 0) \<and>
           (\<forall>cs. m ''client_industry'' = Some (Fitted cs) \<and> ci \<notin> set cs
              \<longrightarrow> X ! 1 = PyInt 0) \<and>
           (\<forall>cs. m ''country'' = Some (Fitted cs) \<and> co \<notin> set cs \<longrightarrow> X ! 2 = PyInt 0) \<and>
           (\<forall>cs. m ''project_type'' = Some (Fitted cs) \<and> pt \<notin> set cs
              \<longrightarrow> X ! 3 = PyInt 0) \<and>
           (\<exists>b. fst (predict p w sc ci co pt a h n) = Inr b)"
proof -
  obtain c1 where c1: "encode_category (Encoders m) ''service_category'' sc = Inr c1"
    "\<forall>cs. m ''service_category'' = Some (Fitted cs) \<and> sc \<notin> set cs \<longrightarrow> c1 = PyInt 0"
    using encode_category_total [OF assms(2)] by blast
  obtain c2 where c2: "encode_category (Encoders m) ''client_industry'' ci = Inr c2"
    "\<forall>cs. m ''client_industry'' = Some (Fitted cs) \<and> ci \<notin> set cs \<longrightarrow> c2 = PyInt 0"
    using encode_category_total [OF assms(2)] by blast
  obtain c3 where c3: "encode_category (Encoders m) ''country'' co = Inr c3"
    "\<forall>cs. m ''country'' = Some (Fitted cs) \<and> co \<notin> set cs \<longrightarrow> c3 = PyInt 0"
    using encode_category_total [OF assms(2)] by blast
  obtain c4 where c4: "encode_category (Encoders m) ''project_type'' pt = Inr c4"
    "\<forall>cs. m ''project_type'' = Some (Fitted cs) \<and> pt \<notin> set cs \<longrightarrow> c4 = PyInt 0"
    using encode_category_total [OF assms(2)] by blast
  obtain divisor q where q: "py_max_1 h = Inr divisor"
    "py_truediv a divisor = Inr (PyFloat q)"
    using derived_features_of_numbers [OF assms(3,4)] by blast
  have g: "py_gt a 20000 = Inr (ra > 20000)"
    using py_gt_number [OF assms(3), of 20000] by simp
  define X where "X = [c1, c2, c3, c4, a, h, n, PyFloat q,
      PyInt (if ra > 20000 then 1 else 0),
      PyInt (if ci \<in> set [''Finance'', ''Healthcare''] then 1 else 0)]"
  have t: "prepare_features_try p sc ci co pt a h n = Inr X"
    by (simp add: prepare_features_try_def assms(1) c1(1) c2(1) c3(1) c4(1) q g X_def)
  then have s: "prepare_features_for_prediction p sc ci co pt a h n = Some X"
    by (simp add: prepare_features_for_prediction_def)
  have i: "length X = 10" "X ! 0 = c1" "X ! 1 = c2" "X ! 2 = c3" "X ! 3 = c4"
    by (simp_all add: X_def)
  have b: "\<exists>b. fst (predict p w sc ci co pt a h n) = Inr b"
    by (rule predict_returns [OF assms(3)])
  from t s i c1(2) c2(2) c3(2) c4(2) b show ?thesis
    by simp
qed

text \<open>
  None of the four categorical values below is among the classes of the example encoders:
  all four are encoded as 0.
\<close>

theorem unseen_category_encodes_zero_witness:
  "\<exists>X. prepare_features_for_prediction loaded_example ''Quantum Computing'' ''Mining''
          ''FR'' ''Barter'' (PyFloat 25000) (PyInt 150) (PyInt 3) = Some X \<and>
        X ! 0 = PyInt 0 \<and> X ! 1 = PyInt 0 \<and> X ! 2 = PyInt 0 \<and> X ! 3 = PyInt 0 \<and>
        (\<exists>b. fst (predict loaded_example empty_world ''Quantum Computing'' ''Mining''
          ''FR'' ''Barter'' (PyFloat 25000) (PyInt 150) (PyInt 3)) = Inr b)"
proof -
  define m where "m = map_of
     [(''service_category'', Fitted [''Cloud Services'', ''Cybersecurity'']),
      (''client_industry'', Fitted [''Education'', ''Finance'']),
      (''country'', Fitted [''UK'', ''US'']),
      (''project_type'', Fitted [''Fixed Price'', ''Retainer''])]"
  have e: "encoders loaded_example = Encoders m"
    by (simp add: loaded_example_def example_encoders_def m_def)
  have r: "NotAnEncoder \<notin> ran m"
    by (auto simp: ran_def m_def split: if_splits)
  have a: "py_float (PyFloat 25000) = Inr 25000"
    by (simp add: py_float_def)
  have h: "py_float (PyInt 150) = Inr 150"
    by (simp add: py_float_def float_overflow_bound_def)
  have s: "m ''service_category'' = Some (Fitted [''Cloud Services'', ''Cybersecurity'']) \<and>
           ''Quantum Computing'' \<notin> set [''Cloud Services'', ''Cybersecurity'']"
    by (simp add: m_def)
  have i: "m ''client_industry'' = Some (Fitted [''Education'', ''Finance'']) \<and>
           ''Mining'' \<notin> set [''Education'', ''Finance'']"
    by (simp add: m_def)
  have c: "m ''country'' = Some (Fitted [''UK'', ''US'']) \<and> ''FR'' \<notin> set [''UK'', ''US'']"
    by (simp add: m_def)
  have t: "m ''project_type'' = Some (Fitted [''Fixed Price'', ''Retainer'']) \<and>
           ''Barter'' \<notin> set [''Fixed Price'', ''Retainer'']"
    by (simp add: m_def)
  from unseen_category_encodes_zero [OF e r a h, of "''Quantum Computing''" "''Mining''"
         "''FR''" "''Barter''" "PyInt 3" empty_world] s i c t
  show ?thesis
    by blast
qed

subsection \<open>Cold start\<close>

text \<open>
  The claim as stated fails for \<open>SimpleInvoicePredictor.predict\<close>, the predictor of the
  application: on the first example (total_amount 25000, total_hours 150, Finance, Fixed
  Price) its discount is 5.0, the top of its own tiers, not 10.0.
\<close>

theorem simple_predict_first_example_discount:
  "discount (simple_predict \<lparr>simple_models_loaded = False\<rparr> ''Cybersecurity'' ''Finance''
      ''US'' ''Fixed Price'' (PyInt 25000) (PyInt 150) (PyInt 3)) = 5.0 \<and>
   discount (simple_predict \<lparr>simple_models_loaded = False\<rparr> ''Cybersecurity'' ''Finance''
      ''US'' ''Fixed Price'' (PyInt 25000) (PyInt 150) (PyInt 3)) \<noteq> 10.0"
  by (simp add: simple_predict_def simple_predict_try_def simple_discount_def
        simple_doc_complexity_def py_gt_def)

text \<open>
  C4, as the code has it. With no model file and no dataset file,
  \<open>ITInvoicePredictor.predict\<close> on a predictor without loaded models returns the two
  worked examples: for total_amount 25000, total_hours 150, client_industry Finance and
  project_type Fixed Price the discount is 10.0, the tax rate 8.5, the documentation
  complexity High and the payment terms "50% Advance, 50% on Completion"; for total_amount
  3000, total_hours 20 and project_type Time & Materials they are 0.0, 8.5, Low and "Net
  30". \<open>SimpleInvoicePredictor.predict\<close>, in any state, returns the second example as
  it stands and on the first example the discount 5.0 with the same tax rate, documentation
  complexity and payment terms. The amounts are the \<open>int\<close> or the float of that value;
  the other parameters are arbitrary.
\<close>

theorem cold_start_examples_of_both_predictors:
  assumes "\<not> models_loaded p"
      and "joblib_files w models_filename = None"
      and "csv_files w ''it_invoice_dataset.csv'' = None"
      and "py_float a1 = Inr 25000"
      and "py_float a2 = Inr 3000"
  shows "(\<exists>b. fst (predict p w sc ''Finance'' co ''Fixed Price'' a1 h n) = Inr b \<and>
            discount b = 10.0 \<and> tax_rate b = 8.5 \<and>
            documentation_complexity b = ''High'' \<and>
            payment_terms b = ''50% Advance, 50% on Completion'') \<and>
         (\<exists>b. fst (predict p w sc' ci' co' ''Time & Materials'' a2 h' n') = Inr b \<and>
            discount b = 0.0 \<and> tax_rate b = 8.5 \<and>
            documentation_complexity b = ''Low'' \<and>
            payment_terms b = ''Net 30'') \<and>
         (discount (simple_predict sp sc ''Finance'' co ''Fixed Price'' a1 h n) = 5.0 \<and>
          tax_rate (simple_predict sp sc ''Finance'' co ''Fixed Price'' a1 h n) = 8.5 \<and>
          documentation_complexity (simple_predict sp sc ''Finance'' co ''Fixed Price'' a1 h n)
            = ''High'' \<and>
          payment_terms (simple_predict sp sc ''Finance'' co ''Fixed Price'' a1 h n)
            = ''50% Advance, 50% on Completion'') \<and>
         (discount (simple_predict sp sc' ci' co' ''Time & Materials'' a2 h' n') = 0.0 \<and>
          tax_rate (simple_predict sp sc' ci' co' ''Time & Materials'' a2 h' n') = 8.5 \<and>
          documentation_complexity (simple_predict sp sc' ci' co' ''Time & Materials'' a2 h' n')
            = ''Low'' \<and>
          payment_terms (simple_predict sp sc' ci' co' ''Time & Materials'' a2 h' n')
            = ''Net 30'')"
proof (intro conjI)
  show "\<exists>b. fst (predict p w sc ''Finance'' co ''Fixed Price'' a1 h n) = Inr b \<and>
            discount b = 10.0 \<and> tax_rate b = 8.5 \<and>
            documentation_complexity b = ''High'' \<and>
            payment_terms b = ''50% Advance, 50% on Completion''"
    by (simp add: predict_cold_start [OF assms(1,2,3)]
          get_smart_defaults_number [OF assms(4)] defaults_payment_terms_map_def
          dict_get_def)
  show "\<exists>b. fst (predict p w sc' ci' co' ''Time & Materials'' a2 h' n') = Inr b \<and>
            discount b = 0.0 \<and> tax_rate b = 8.5 \<and>
            documentation_complexity b = ''Low'' \<and>
            payment_terms b = ''Net 30''"
    by (simp add: predict_cold_start [OF assms(1,2,3)]
          get_smart_defaults_number [OF assms(5)] defaults_payment_terms_map_def
          dict_get_def)
qed (simp_all add: simple_predict_number [OF assms(4)] simple_predict_number [OF assms(5)]
       simple_payment_terms_map_def dict_get_def)

theorem cold_start_examples_of_both_predictors_witness:
  "(\<exists>b. fst (predict init empty_world ''Cloud Services'' ''Finance'' ''US'' ''Fixed Price''
              (PyInt 25000) (PyInt 150) (PyInt 3)) = Inr b \<and>
      discount b = 10.0 \<and> tax_rate b = 8.5 \<and>
      documentation_complexity b = ''High'' \<and>
      payment_terms b = ''50% Advance, 50% on Completion'') \<and>
   (\<exists>b. fst (predict init empty_world ''IT Consulting'' ''Education'' ''UK''
              ''Time & Materials'' (PyFloat 3000) (PyInt 20) (PyInt 1)) = Inr b \<and>
      discount b = 0.0 \<and> tax_rate b = 8.5 \<and>
      documentation_complexity b = ''Low'' \<and>
      payment_terms b = ''Net 30'') \<and>
   discount (simple_predict \<lparr>simple_models_loaded = False\<rparr> ''Cloud Services'' ''Finance''
      ''US'' ''Fixed Price'' (PyInt 25000) (PyInt 150) (PyInt 3)) = 5.0 \<and>
   discount (simple_predict \<lparr>simple_models_loaded = False\<rparr> ''IT Consulting''
      ''Education'' ''UK'' ''Time & Materials'' (PyFloat 3000) (PyInt 20) (PyInt 1)) = 0.0"
proof -
  have a1: "py_float (PyInt 25000) = Inr 25000"
    by (simp add: py_float_def float_overflow_bound_def)
  have a2: "py_float (PyFloat 3000) = Inr 3000"
    by (simp add: py_float_def)
  from cold_start_examples_of_both_predictors
    [OF init_not_loaded empty_world_no_files a1 a2,
      of "''Cloud Services''" "''US''" "PyInt 150" "PyInt 3"
         "''IT Consulting''" "''Education''" "''UK''" "PyInt 20" "PyInt 1"
         "\<lparr>simple_models_loaded = False\<rparr>"]
  show ?thesis
    by blast
qed

subsection \<open>The totals of an invoice\<close>





subsection \<open>Saving and loading the models\<close>

text \<open>What training and saving leave behind when they return \<open>True\<close>.\<close>

lemma train_models_assigns:
  assumes "train_models p w = (True, p1)"
  shows "\<exists>dm tm cm. discount_model p1 = Some dm \<and> tax_model p1 = Some tm \<and>
           docs_model p1 = Some cm"
  using assms
  by (auto simp: train_models_def train_models_try_def Let_def
        split: prod.splits bool.splits option.splits sum.splits)

lemma save_models_True:
  assumes "save_models p w f = (True, p1, w1)"
  shows "models_loaded p1 \<and>
         (\<exists>dm tm cm. discount_model p1 = Some dm \<and> tax_model p1 = Some tm \<and>
            docs_model p1 = Some cm \<and>
            joblib_files w1 f = Some (Pickle (PickledDict (map_of
              [(''discount_model'', dm), (''tax_model'', tm), (''docs_model'', cm),
               (''encoders'', encoders p1)]))))"
proof -
  obtain ok p' where t:
    "(if \<not> models_loaded p then train_models p w else (True, p)) = (ok, p')"
    by (cases "if \<not> models_loaded p then train_models p w else (True, p)") auto
  with assms have ok: "ok" and p': "p' = p1"
    by (auto simp: save_models_def split: bool.splits option.splits sum.splits)
  from t ok have "models_loaded p'"
    by (auto split: if_splits dest: train_models_True)
  with assms t ok p' show ?thesis
    by (auto simp: save_models_def joblib_dump_def
          split: option.splits sum.splits if_splits)
qed

lemma save_models_after_training:
  assumes "models_loaded p" and "discount_model p = Some dm" and "tax_model p = Some tm"
      and "docs_model p = Some cm" and "writable w f"
  shows "\<exists>w1. save_models p w f = (True, p, w1)"
  using assms by (simp add: save_models_def joblib_dump_def)

text \<open>Loading a file that holds the four entries.\<close>

lemma load_models_of_saved:
  assumes "joblib_files w f = Some (Pickle (PickledDict (map_of
              [(''discount_model'', dm), (''tax_model'', tm), (''docs_model'', cm),
               (''encoders'', encs)])))"
  shows "load_models r w f =
           (True, r\<lparr>discount_model := Some dm, tax_model := Some tm, docs_model := Some cm,
                    encoders := encs, models_loaded := True\<rparr>)"
  using assms
  by (simp add: load_models_def load_models_try_def joblib_load_def pickle_getitem_def
        pickle_get_def dict_getitem_def dict_get_def)

text \<open>
  With loaded models, \<open>predict\<close> reads the three estimators and the encoders of the
  predictor, and nothing else of it or of the world.
\<close>

lemma prepare_features_cong:
  assumes "encoders q = encoders p"
  shows "prepare_features_for_prediction q sc ci co pt a h n
           = prepare_features_for_prediction p sc ci co pt a h n"
  unfolding prepare_features_for_prediction_def prepare_features_try_def assms
  by (rule refl)

lemma predict_loaded_cong:
  assumes "models_loaded p" and "models_loaded q"
      and "encoders q = encoders p" and "discount_model q = discount_model p"
      and "tax_model q = tax_model p" and "docs_model q = docs_model p"
  shows "fst (predict q w sc ci co pt a h n) = fst (predict p w' sc ci co pt a h n)"
proof (cases "prepare_features_for_prediction p sc ci co pt a h n")
  case None
  then show ?thesis
    using assms(1,2) prepare_features_cong [OF assms(3), of sc ci co pt a h n]
    by (simp add: predict_def predict_try_def return_defaults_def split: sum.splits)
next
  case (Some X)
  then have q: "prepare_features_for_prediction q sc ci co pt a h n = Some X"
    using prepare_features_cong [OF assms(3), of sc ci co pt a h n] by simp
  show ?thesis
    using assms(1,2)
    by (simp add: predict_def predict_try_def return_defaults_def Some q assms(4,5,6)
          split: sum.splits)
qed

text \<open>
  C6. After training has succeeded, saving the models (the dictionary with the entries
  discount_model, tax_model, docs_model and encoders) and loading the file into any
  predictor gives a predictor that returns, for every input, the bundle that the trained
  predictor in memory returns. \<open>joblib.dump\<close> and \<open>joblib.load\<close> are modelled as
  storing and reading back the object unchanged.
\<close>

theorem save_load_round_trip:
  assumes "train_models p0 w = (True, p)" and "save_models p w f = (True, p1, w1)"
  shows "p1 = p \<and>
         (\<exists>q. load_models r w1 f = (True, q) \<and>
            (\<forall>w2 w3 sc ci co pt a h n.
               fst (predict q w2 sc ci co pt a h n) = fst (predict p w3 sc ci co pt a h n)))"
proof -
  from assms(1) have lp: "models_loaded p"
    by (rule train_models_True)
  with assms(2) have eq: "p1 = p"
    by (auto simp: save_models_def split: option.splits sum.splits)
  from save_models_True [OF assms(2)] eq obtain dm tm cm where
    m: "discount_model p = Some dm" "tax_model p = Some tm" "docs_model p = Some cm" and
    stored: "joblib_files w1 f = Some (Pickle (PickledDict (map_of
              [(''discount_model'', dm), (''tax_model'', tm), (''docs_model'', cm),
               (''encoders'', encoders p)])))"
    by blast
  define q where "q = r\<lparr>discount_model := Some dm, tax_model := Some tm,
      docs_model := Some cm, encoders := encoders p, models_loaded := True\<rparr>"
  have l: "load_models r w1 f = (True, q)"
    unfolding q_def by (rule load_models_of_saved [OF stored])
  have "fst (predict q w2 sc ci co pt a h n) = fst (predict p w3 sc ci co pt a h n)"
    for w2 w3 sc ci co pt a h n
    by (rule predict_loaded_cong) (simp_all add: lp q_def m)
  with eq l show ?thesis
    by blast
qed

text \<open>
  Training on the example dataset, saving and loading into a new predictor.
\<close>

theorem save_load_round_trip_witness:
  "\<exists>p w1 q. train_models init training_world = (True, p) \<and>
      save_models p training_world models_filename = (True, p, w1) \<and>
      load_models init w1 models_filename = (True, q) \<and>
      (\<forall>w2 w3 sc ci co pt a h n.
         fst (predict q w2 sc ci co pt a h n) = fst (predict p w3 sc ci co pt a h n))"
proof -
  have "fst (train_models init training_world) = True"
    by (simp add: train_models_def load_dataset_def read_csv_def training_world_def init_def
          train_models_try_def categorical_cols_def feature_cols_def training_table_def
          dict_getitem_def fit_transform_def Let_def fit_on_def mean_fit_def flag_fit_def)
  then obtain p where t: "train_models init training_world = (True, p)"
    by (cases "train_models init training_world") auto
  from train_models_assigns [OF t] obtain dm tm cm where
    m: "discount_model p = Some dm" "tax_model p = Some tm" "docs_model p = Some cm"
    by blast
  have "writable training_world models_filename"
    by (simp add: training_world_def)
  with save_models_after_training [OF train_models_True [OF t] m] obtain w1 where
    s: "save_models p training_world models_filename = (True, p, w1)"
    by blast
  from save_load_round_trip [OF t s, of init] obtain q where
    l: "load_models init w1 models_filename = (True, q)" and
    e: "\<forall>w2 w3 sc ci co pt a h n.
         fst (predict q w2 sc ci co pt a h n) = fst (predict p w3 sc ci co pt a h n)"
    by blast
  show ?thesis
    by (intro exI [of _ p] exI [of _ w1] exI [of _ q] conjI) (rule t s l e)+
qed

subsection \<open>The documentation complexity of the inference path\<close>

text \<open>
  C7. On the inference path (the models are loaded, or \<open>load_models\<close> succeeds; the
  features are prepared; the three estimators return values) the documentation complexity
  of the bundle is High exactly when the output of the needs-detailed-docs classifier is
  set (not 0) and Medium otherwise, never Low; a bundle with the documentation complexity
  Low is the bundle of \<open>_get_smart_defaults\<close>.
\<close>

theorem inference_documentation_complexity:
  "(\<forall>p1 X d t k.
      (if \<not> models_loaded p then load_models p w models_filename else (True, p))
        = (True, p1) \<and>
      prepare_features_for_prediction p1 sc ci co pt a h n = Some X \<and>
      predict_float (discount_model p1) X = Inr d \<and>
      predict_float (tax_model p1) X = Inr t \<and>
      predict_int (docs_model p1) X = Inr k
      \<longrightarrow> (\<exists>b. fst (predict p w sc ci co pt a h n) = Inr b \<and>
             (documentation_complexity b = ''High'' \<longleftrightarrow> k \<noteq> 0) \<and>
             (documentation_complexity b = ''Medium'' \<longleftrightarrow> k = 0) \<and>
             documentation_complexity b \<noteq> ''Low'')) \<and>
   (\<forall>b. fst (predict p w sc ci co pt a h n) = Inr b \<and> documentation_complexity b = ''Low''
      \<longrightarrow> get_smart_defaults sc ci pt a = Inr b)"
proof (intro conjI allI impI)
  fix p1 X d t k
  assume "(if \<not> models_loaded p then load_models p w models_filename else (True, p))
        = (True, p1) \<and>
      prepare_features_for_prediction p1 sc ci co pt a h n = Some X \<and>
      predict_float (discount_model p1) X = Inr d \<and>
      predict_float (tax_model p1) X = Inr t \<and>
      predict_int (docs_model p1) X = Inr k"
  then have "fst (predict p w sc ci co pt a h n) =
        Inr \<lparr> discount = py_round2 (max 0 (min 20 d)),
               tax_rate = py_round2 (max 0 (min 25 t)),
               documentation_complexity = (if k \<noteq> 0 then ''High'' else ''Medium''),
               payment_terms = dict_get predict_payment_terms_map pt ''Net 30'',
               service_notes = dict_get predict_service_notes_map sc
                 ''Professional IT services delivered to industry standards.'' \<rparr>"
    by (simp add: predict_inference [of p w p1 sc ci co pt a h n X d t k])
  then show "\<exists>b. fst (predict p w sc ci co pt a h n) = Inr b \<and>
             (documentation_complexity b = ''High'' \<longleftrightarrow> k \<noteq> 0) \<and>
             (documentation_complexity b = ''Medium'' \<longleftrightarrow> k = 0) \<and>
             documentation_complexity b \<noteq> ''Low''"
    by simp
next
  fix b
  assume "fst (predict p w sc ci co pt a h n) = Inr b \<and> documentation_complexity b = ''Low''"
  then show "get_smart_defaults sc ci pt a = Inr b"
    using predict_cases [of p w sc ci co pt a h n] by auto
qed

text \<open>
  With the example model file: an amount of 25000 sets the flag and gives High; an amount
  of 3000 does not and gives Medium. Without files the same amount gives Low, from the
  defaults.
\<close>

theorem inference_documentation_complexity_witness:
  "(\<exists>b. fst (predict init artifact_world ''Cybersecurity'' ''Finance'' ''US'' ''Fixed Price''
             (PyFloat 25000) (PyInt 150) (PyInt 3)) = Inr b \<and>
        documentation_complexity b = ''High'') \<and>
   (\<exists>b. fst (predict init artifact_world ''Cybersecurity'' ''Finance'' ''US'' ''Fixed Price''
             (PyFloat 3000) (PyInt 20) (PyInt 1)) = Inr b \<and>
        documentation_complexity b = ''Medium'') \<and>
   (\<exists>b. fst (predict init empty_world ''Cybersecurity'' ''Finance'' ''US'' ''Fixed Price''
             (PyFloat 3000) (PyInt 20) (PyInt 1)) = Inr b \<and>
        documentation_complexity b = ''Low'' \<and>
        get_smart_defaults ''Cybersecurity'' ''Finance'' ''Fixed Price'' (PyFloat 3000)
          = Inr b)"
proof (intro conjI)
  from inference_documentation_complexity [of init artifact_world "''Cybersecurity''"
         "''Finance''" "''US''" "''Fixed Price''" "PyFloat 25000" "PyInt 150" "PyInt 3"]
    artifact_world_loads loaded_example_features_large loaded_example_outputs_large
  have "\<exists>b. fst (predict init artifact_world ''Cybersecurity'' ''Finance'' ''US''
               ''Fixed Price'' (PyFloat 25000) (PyInt 150) (PyInt 3)) = Inr b \<and>
             (documentation_complexity b = ''High'' \<longleftrightarrow> (1::int) \<noteq> 0)"
    by blast
  then show "\<exists>b. fst (predict init artifact_world ''Cybersecurity'' ''Finance'' ''US''
      ''Fixed Price'' (PyFloat 25000) (PyInt 150) (PyInt 3)) = Inr b \<and>
      documentation_complexity b = ''High''"
    by simp
next
  from inference_documentation_complexity [of init artifact_world "''Cybersecurity''"
         "''Finance''" "''US''" "''Fixed Price''" "PyFloat 3000" "PyInt 20" "PyInt 1"]
    artifact_world_loads loaded_example_features_small loaded_example_outputs_small
  have "\<exists>b. fst (predict init artifact_world ''Cybersecurity'' ''Finance'' ''US''
               ''Fixed Price'' (PyFloat 3000) (PyInt 20) (PyInt 1)) = Inr b \<and>
             (documentation_complexity b = ''Medium'' \<longleftrightarrow> (0::int) = 0)"
    by blast
  then show "\<exists>b. fst (predict init artifact_world ''Cybersecurity'' ''Finance'' ''US''
      ''Fixed Price'' (PyFloat 3000) (PyInt 20) (PyInt 1)) = Inr b \<and>
      documentation_complexity b = ''Medium''"
    by simp
next
  have n: "py_float (PyFloat 3000) = Inr 3000"
    by (simp add: py_float_def)
  obtain r where r: "fst (predict init empty_world ''Cybersecurity'' ''Finance'' ''US''
      ''Fixed Price'' (PyFloat 3000) (PyInt 20) (PyInt 1)) = Inr r"
    and low: "documentation_complexity r = ''Low''"
    by (simp add: predict_cold_start [OF init_not_loaded empty_world_no_files]
          get_smart_defaults_number [OF n])
  with inference_documentation_complexity [of init empty_world "''Cybersecurity''"
         "''Finance''" "''US''" "''Fixed Price''" "PyFloat 3000" "PyInt 20" "PyInt 1"]
  have "get_smart_defaults ''Cybersecurity'' ''Finance'' ''Fixed Price'' (PyFloat 3000)
          = Inr r"
    by blast
  with r low show "\<exists>b. fst (predict init empty_world ''Cybersecurity'' ''Finance'' ''US''
      ''Fixed Price'' (PyFloat 3000) (PyInt 20) (PyInt 1)) = Inr b \<and>
      documentation_complexity b = ''Low'' \<and>
      get_smart_defaults ''Cybersecurity'' ''Finance'' ''Fixed Price'' (PyFloat 3000)
        = Inr b"
    by blast
qed

subsection \<open>The payment terms of the generator and of the predictors\<close>




lemma payment_terms_support_contract_differs:
  "generated_payment_terms ''Support Contract'' = ''Monthly in Advance'' \<and>
   dict_get predict_payment_terms_map ''Support Contract'' ''Net 30''
     = ''Quarterly in Advance''"
  by (simp add: generated_payment_terms_def predict_payment_terms_map_def dict_get_def)

subsection \<open>The default discounts grow with the amount\<close>

text \<open>
  C9. The two rule-based default discounts, of \<open>SimpleInvoicePredictor.predict\<close> and of
  \<open>_get_smart_defaults\<close>, are monotonically non-decreasing in total_amount with the other
  inputs fixed, and both are 0 for every total_amount at or below the lowest threshold,
  5000. The amounts are numbers (floats, or \<open>int\<close>s that a float can hold) with the
  values \<open>x\<close> and \<open>y\<close>.
\<close>

theorem default_discounts_monotone:
  "(py_float a = Inr x \<and> py_float b = Inr y \<and> x \<le> y \<longrightarrow>
      (\<exists>d e. get_smart_defaults sc ci pt a = Inr d \<and> get_smart_defaults sc ci pt b = Inr e \<and>
         discount d \<le> discount e) \<and>
      discount (simple_predict sp sc ci co pt a h n)
        \<le> discount (simple_predict sp sc ci co pt b h n)) \<and>
   (py_float a = Inr x \<and> x \<le> 5000 \<longrightarrow>
      (\<exists>d. get_smart_defaults sc ci pt a = Inr d \<and> discount d = 0) \<and>
      discount (simple_predict sp sc ci co pt a h n) = 0)"
proof (intro conjI impI)
  assume "py_float a = Inr x \<and> py_float b = Inr y \<and> x \<le> y"
  then have a: "py_float a = Inr x" and b: "py_float b = Inr y" and le: "x \<le> y"
    by simp_all
  from le show "\<exists>d e. get_smart_defaults sc ci pt a = Inr d \<and>
      get_smart_defaults sc ci pt b = Inr e \<and> discount d \<le> discount e"
    by (simp add: get_smart_defaults_number [OF a] get_smart_defaults_number [OF b])
  from le show "discount (simple_predict sp sc ci co pt a h n)
        \<le> discount (simple_predict sp sc ci co pt b h n)"
    by (simp add: simple_predict_number [OF a] simple_predict_number [OF b])
next
  assume "py_float a = Inr x \<and> x \<le> 5000"
  then have a: "py_float a = Inr x" and le: "x \<le> 5000"
    by simp_all
  from le show "\<exists>d. get_smart_defaults sc ci pt a = Inr d \<and> discount d = 0"
    by (simp add: get_smart_defaults_number [OF a])
  from le show "discount (simple_predict sp sc ci co pt a h n) = 0"
    by (simp add: simple_predict_number [OF a])
qed

theorem default_discounts_monotone_witness:
  "(\<exists>d e. get_smart_defaults ''Cybersecurity'' ''Finance'' ''Retainer'' (PyInt 5000) = Inr d \<and>
      get_smart_defaults ''Cybersecurity'' ''Finance'' ''Retainer'' (PyFloat 12000) = Inr e \<and>
      discount d \<le> discount e) \<and>
   discount (simple_predict \<lparr>simple_models_loaded = False\<rparr> ''Cybersecurity'' ''Finance''
       ''US'' ''Retainer'' (PyInt 5000) (PyInt 40) (PyInt 2))
     \<le> discount (simple_predict \<lparr>simple_models_loaded = False\<rparr> ''Cybersecurity''
       ''Finance'' ''US'' ''Retainer'' (PyFloat 12000) (PyInt 40) (PyInt 2)) \<and>
   (\<exists>d. get_smart_defaults ''Cybersecurity'' ''Finance'' ''Retainer'' (PyInt 5000) = Inr d \<and>
      discount d = 0) \<and>
   discount (simple_predict \<lparr>simple_models_loaded = False\<rparr> ''Cybersecurity'' ''Finance''
       ''US'' ''Retainer'' (PyInt 5000) (PyInt 40) (PyInt 2)) = 0"
proof -
  have a: "py_float (PyInt 5000) = Inr 5000"
    by (simp add: py_float_def float_overflow_bound_def)
  have b: "py_float (PyFloat 12000) = Inr 12000"
    by (simp add: py_float_def)
  have le: "(5000::real) \<le> 12000" "(5000::real) \<le> 5000"
    by simp_all
  from default_discounts_monotone [of "PyInt 5000" 5000 "PyFloat 12000" 12000
      "''Cybersecurity''" "''Finance''" "''Retainer''" "\<lparr>simple_models_loaded = False\<rparr>"
      "''US''" "PyInt 40" "PyInt 2"] a b le
  show ?thesis
    by blast
qed

subsection \<open>What the predictor of the application depends on\<close>

text \<open>
  C10. Two calls of \<open>SimpleInvoicePredictor.predict\<close> whose total_amount, project_type
  and service_category agree return the same bundle, whatever the client_industry, the
  country, total_hours and num_services are and whatever the state of the predictor is, in
  particular after a \<open>load_models\<close> that succeeded or failed: the loaded models are
  never used.
\<close>

theorem simple_predict_independent:
  "simple_predict sp sc ci co pt a h n = simple_predict sp' sc ci' co' pt a h' n' \<and>
   simple_predict (snd (simple_load_models sp w f)) sc ci co pt a h n
     = simple_predict sp' sc ci' co' pt a h' n'"
  by (simp add: simple_predict_def simple_predict_try_def)

end
